theory Spec2Isabelle
  imports Main
begin

section \<open>JavaScript strings\<close>

text \<open>
  A JavaScript string is a sequence of UTF-16 code units; the model keeps it as the list
  of their numbers. \<open>js ''abc''\<close> is the string of an ASCII literal of the source.
\<close>

type_synonym jstring = "nat list"

abbreviation js :: "string \<Rightarrow> jstring" where
  "js s \<equiv> map (of_char :: char \<Rightarrow> nat) s"

text \<open>
  \<open>String.prototype.toLowerCase\<close>. Only \<open>A\<close>..\<open>Z\<close> are mapped here. The source
  lower-cases the \<open>\w+\<close> capture, which is ASCII by construction, and lower-cases the
  query only to compare it with the ASCII literals \<open>'connect'\<close> and \<open>'price of'\<close>.
  Outside ASCII, the characters whose Unicode lower-casing contains an ASCII letter are
  U+212A (\<open>k\<close>, which neither literal contains) and U+0130 (\<open>i\<close> followed by U+0307,
  while \<open>i\<close> is followed by \<open>c\<close> in \<open>'price of'\<close>), so both comparisons come out as
  they do here.
\<close>

definition lowerUnit :: "nat \<Rightarrow> nat" where
  "lowerUnit c = (if 65 \<le> c \<and> c \<le> 90 then c + 32 else c)"

definition toLowerCase :: "jstring \<Rightarrow> jstring" where
  "toLowerCase s = map lowerUnit s"

text \<open>
  \<open>String.prototype.trim\<close> removes the WhiteSpace and LineTerminator code points of
  ECMAScript from both ends.
\<close>

definition is_space :: "nat \<Rightarrow> bool" where
  "is_space c = (c = 9 \<or> c = 10 \<or> c = 11 \<or> c = 12 \<or> c = 13 \<or> c = 32 \<or> c = 160
     \<or> c = 5760 \<or> (8192 \<le> c \<and> c \<le> 8202) \<or> c = 8232 \<or> c = 8233 \<or> c = 8239
     \<or> c = 8287 \<or> c = 12288 \<or> c = 65279)"

definition trim :: "jstring \<Rightarrow> jstring" where
  "trim s = rev (dropWhile is_space (rev (dropWhile is_space s)))"

text \<open>\<open>String.prototype.includes\<close>: the pattern occurs at some position.\<close>

fun str_includes :: "jstring \<Rightarrow> jstring \<Rightarrow> bool" where
  "str_includes [] pat = (pat = [])"
| "str_includes (c # cs) pat = (take (length pat) (c # cs) = pat \<or> str_includes cs pat)"

section \<open>Symbol resolution\<close>

text \<open>
  \<open>cryptoSymbolMappings\<close> is an object literal: its own members are the nine entries
  below, and a member read that misses them continues on \<open>Object.prototype\<close>.
\<close>

definition cryptoSymbolMappings :: "(jstring \<times> jstring) list" where
  "cryptoSymbolMappings =
     [(js ''btc'', js ''bitcoin''),
      (js ''eth'', js ''ethereum''),
      (js ''doge'', js ''dogecoin''),
      (js ''ada'', js ''cardano''),
      (js ''xrp'', js ''ripple''),
      (js ''matic'', js ''polygon''),
      (js ''sol'', js ''solana''),
      (js ''bnb'', js ''binancecoin''),
      (js ''dot'', js ''polkadot'')]"

text \<open>The member names of \<open>Object.prototype\<close> that every plain object inherits.\<close>

definition Object_prototype_members :: "jstring list" where
  "Object_prototype_members =
     [js ''constructor'', js ''__defineGetter__'', js ''__defineSetter__'',
      js ''hasOwnProperty'', js ''__lookupGetter__'', js ''__lookupSetter__'',
      js ''isPrototypeOf'', js ''propertyIsEnumerable'', js ''toString'', js ''valueOf'',
      js ''__proto__'', js ''toLocaleString'']"

text \<open>
  What \<open>extractCryptoSymbol\<close> can return besides \<open>null\<close>: a string, or the value of an
  inherited member of the mapping object (a built-in function, or the prototype object
  for \<open>__proto__\<close>), named by the member.
\<close>

datatype symbol = Sym jstring | Inherited jstring

text \<open>\<open>cryptoSymbolMappings[key]\<close>; \<open>None\<close> is \<open>undefined\<close>.\<close>

definition mappings_get :: "jstring \<Rightarrow> symbol option" where
  "mappings_get key =
     (case map_of cryptoSymbolMappings key of
        Some v \<Rightarrow> Some (Sym v)
      | None \<Rightarrow> if key \<in> set Object_prototype_members then Some (Inherited key) else None)"

text \<open>\<open>ToBoolean\<close> of such a value: a string is truthy when non-empty, an object always.\<close>

fun symbol_truthy :: "symbol \<Rightarrow> bool" where
  "symbol_truthy (Sym s) = (s \<noteq> [])"
| "symbol_truthy (Inherited n) = True"

text \<open>The class \<open>\w\<close> of a regular expression without the \<open>u\<close> flag.\<close>

definition is_word :: "nat \<Rightarrow> bool" where
  "is_word c = ((48 \<le> c \<and> c \<le> 57) \<or> (65 \<le> c \<and> c \<le> 90) \<or> c = 95 \<or> (97 \<le> c \<and> c \<le> 122))"

text \<open>
  \<open>query.match(/price of (\w+)/i)\<close>: the capture of the leftmost match, \<open>None\<close> for
  \<open>null\<close>. At a position the pattern needs the nine units of \<open>price of \<close> in either
  ASCII case and at least one word unit after them; the capture is greedy.
\<close>

fun match_price_of :: "jstring \<Rightarrow> jstring option" where
  "match_price_of [] = None"
| "match_price_of (c # cs) =
     (if map lowerUnit (take 9 (c # cs)) = js ''price of ''
         \<and> takeWhile is_word (drop 9 (c # cs)) \<noteq> []
      then Some (takeWhile is_word (drop 9 (c # cs)))
      else match_price_of cs)"

text \<open>
  The last two lines of \<open>extractCryptoSymbol\<close>, on the capture:
  \<^verbatim>\<open>const userSymbol = match[1].toLowerCase();
  return cryptoSymbolMappings[userSymbol] || userSymbol;\<close>
\<close>

definition resolve :: "jstring \<Rightarrow> symbol" where
  "resolve token =
     (let userSymbol = toLowerCase token in
      case mappings_get userSymbol of
        Some v \<Rightarrow> if symbol_truthy v then v else Sym userSymbol
      | None \<Rightarrow> Sym userSymbol)"

definition extractCryptoSymbol :: "jstring \<Rightarrow> symbol option" where
  "extractCryptoSymbol query =
     (case match_price_of query of
        None \<Rightarrow> None
      | Some m \<Rightarrow> Some (resolve m))"

section \<open>JavaScript values read from JSON\<close>

text \<open>
  The values \<open>JSON.parse\<close> can return. A number keeps the text of its literal: its
  value is an IEEE double, which the \<open>platform\<close> record below interprets. An object keeps
  its members in source order; a later member of the same name overrides an earlier one.
\<close>

datatype json =
    JNull
  | JBool bool
  | JNum jstring
  | JStr jstring
  | JArr "json list"
  | JObj "(jstring \<times> json) list"

text \<open>What the source's \<open>try\<close> blocks can catch.\<close>

datatype exn = TypeError | SyntaxError | Rejected

text \<open>
  What depends on the JavaScript engine and is not computed here: whether the double of
  a number literal is zero, the decimal text \<open>Number::toString\<close> gives it, and the
  text that \<open>ToString\<close> gives an inherited built-in (for \<open>constructor\<close>, the source
  text of a native function). Every theorem below holds for every \<open>platform\<close>.
\<close>

record platform =
  number_is_zero :: "jstring \<Rightarrow> bool"
  number_to_string :: "jstring \<Rightarrow> jstring"
  builtin_to_string :: "jstring \<Rightarrow> jstring"

text \<open>\<open>ToBoolean\<close>.\<close>

fun truthy :: "platform \<Rightarrow> json \<Rightarrow> bool" where
  "truthy P JNull = False"
| "truthy P (JBool b) = b"
| "truthy P (JNum n) = (\<not> number_is_zero P n)"
| "truthy P (JStr s) = (s \<noteq> [])"
| "truthy P (JArr xs) = True"
| "truthy P (JObj ms) = True"

text \<open>\<open>ToBoolean\<close> of a value that may be \<open>undefined\<close> (\<open>None\<close>).\<close>

fun truthy_opt :: "platform \<Rightarrow> json option \<Rightarrow> bool" where
  "truthy_opt P None = False"
| "truthy_opt P (Some v) = truthy P v"

text \<open>
  An array index as a member name: the canonical decimal text of a number.
\<close>

definition is_digit :: "nat \<Rightarrow> bool" where
  "is_digit c = (48 \<le> c \<and> c \<le> 57)"

definition array_index :: "jstring \<Rightarrow> nat option" where
  "array_index k =
     (if k = [] \<or> \<not> list_all is_digit k \<or> (hd k = 48 \<and> length k > 1) then None
      else Some (foldl (\<lambda>n d. 10 * n + (d - 48)) 0 k))"

text \<open>
  A member read \<open>v[k]\<close>, with \<open>None\<close> for \<open>undefined\<close>. Reading a member of \<open>null\<close>
  throws. The members represented are the own members of an object and the elements of
  an array. The source reads \<open>response\<close>, \<open>usd\<close> and \<open>res.data[symbol]\<close>; no
  prototype and no string or array has a member \<open>response\<close> or \<open>usd\<close>, and
  \<open>res.data[symbol]\<close> is only tested for truth and read at \<open>usd\<close>, so that a member
  left out here (\<open>length\<close>, a string index, an inherited method) ends in the same
  \<open>'Price not found'\<close> as \<open>undefined\<close> does.
\<close>

fun js_get :: "json \<Rightarrow> jstring \<Rightarrow> exn + json option" where
  "js_get JNull k = Inl TypeError"
| "js_get (JObj ms) k = Inr (map_of (rev ms) k)"
| "js_get (JArr xs) k =
     Inr (case array_index k of
            None \<Rightarrow> None
          | Some i \<Rightarrow> if i < length xs then Some (xs ! i) else None)"
| "js_get v k = Inr None"

text \<open>
  \<open>ToString\<close>, as string concatenation and template literals apply it. An object
  parsed from JSON inherits \<open>Object.prototype.toString\<close> unless it has an own member
  \<open>toString\<close>, which is never callable: then the conversion throws. An array is joined
  with commas, \<open>null\<close> elements giving the empty string.
\<close>

fun js_toString :: "platform \<Rightarrow> json \<Rightarrow> exn + jstring"
  and js_join :: "platform \<Rightarrow> json list \<Rightarrow> exn + jstring" where
  "js_toString P JNull = Inr (js ''null'')"
| "js_toString P (JBool b) = Inr (if b then js ''true'' else js ''false'')"
| "js_toString P (JNum n) = Inr (number_to_string P n)"
| "js_toString P (JStr s) = Inr s"
| "js_toString P (JArr xs) = js_join P xs"
| "js_toString P (JObj ms) =
     (if js ''toString'' \<in> set (map fst ms) then Inl TypeError
      else Inr (js ''[object Object]''))"
| "js_join P [] = Inr []"
| "js_join P (x # xs) =
     (case (if x = JNull then Inr [] else js_toString P x) of
        Inl e \<Rightarrow> Inl e
      | Inr s \<Rightarrow>
          if xs = [] then Inr s
          else (case js_join P xs of Inl e \<Rightarrow> Inl e | Inr t \<Rightarrow> Inr (s @ 44 # t)))"

text \<open>\<open>ToString\<close> of what \<open>extractCryptoSymbol\<close> returned.\<close>

fun symbol_text :: "platform \<Rightarrow> symbol \<Rightarrow> jstring" where
  "symbol_text P (Sym s) = s"
| "symbol_text P (Inherited n) = builtin_to_string P n"

section \<open>JSON.parse\<close>

text \<open>
  The built-in \<open>JSON.parse\<close>, following the JSON grammar of ECMA-404: a lexer, then a
  pushdown recogniser that builds the value. A text outside the grammar is a
  \<open>SyntaxError\<close>.
\<close>

datatype token =
    TLBrace | TRBrace | TLBracket | TRBracket | TColon | TComma
  | TTrue | TFalse | TNull
  | TString jstring
  | TNumber jstring

definition hex_value :: "nat \<Rightarrow> nat option" where
  "hex_value c =
     (if 48 \<le> c \<and> c \<le> 57 then Some (c - 48)
      else if 97 \<le> c \<and> c \<le> 102 then Some (c - 87)
      else if 65 \<le> c \<and> c \<le> 70 then Some (c - 55)
      else None)"

definition hex4 :: "jstring \<Rightarrow> nat option" where
  "hex4 s =
     (case map hex_value s of
        [Some a, Some b, Some c, Some d] \<Rightarrow> Some (((a * 16 + b) * 16 + c) * 16 + d)
      | _ \<Rightarrow> None)"

text \<open>The single-character escapes: \<open>\" \\ \/ \b \f \n \r \t\<close>.\<close>

definition unescape :: "nat \<Rightarrow> nat option" where
  "unescape e =
     (if e = 34 \<or> e = 92 \<or> e = 47 then Some e
      else if e = 98 then Some 8
      else if e = 102 then Some 12
      else if e = 110 then Some 10
      else if e = 114 then Some 13
      else if e = 116 then Some 9
      else None)"

text \<open>
  The rest of a string literal after its opening quote: its value and the input after
  the closing quote. A control character, an unknown escape or a missing quote fails.
\<close>

fun lex_string :: "jstring \<Rightarrow> (jstring \<times> jstring) option" where
  "lex_string [] = None"
| "lex_string (c # cs) =
     (if c = 34 then Some ([], cs)
      else if c = 92 then
        (case cs of
           [] \<Rightarrow> None
         | e # es \<Rightarrow>
             if e = 117 then
               (case hex4 (take 4 es) of
                  None \<Rightarrow> None
                | Some u \<Rightarrow>
                    (case lex_string (drop 4 es) of
                       None \<Rightarrow> None
                     | Some (s, r) \<Rightarrow> Some (u # s, r)))
             else
               (case unescape e of
                  None \<Rightarrow> None
                | Some x \<Rightarrow>
                    (case lex_string es of
                       None \<Rightarrow> None
                     | Some (s, r) \<Rightarrow> Some (x # s, r))))
      else if c < 32 then None
      else (case lex_string cs of
              None \<Rightarrow> None
            | Some (s, r) \<Rightarrow> Some (c # s, r)))"

text \<open>
  A number literal: \<open>-? (0 | [1-9][0-9]*) (. [0-9]+)? ([eE] [+-]? [0-9]+)?\<close>, the
  longest one at the head of the input, with the input after it.
\<close>

definition lex_exp :: "jstring \<Rightarrow> jstring \<Rightarrow> (jstring \<times> jstring) option" where
  "lex_exp acc s =
     (if take 1 s = [101] \<or> take 1 s = [69] then
        (let s2 = drop 1 s;
             sg = (if take 1 s2 = [43] \<or> take 1 s2 = [45] then take 1 s2 else []);
             s3 = drop (length sg) s2
         in if takeWhile is_digit s3 = [] then None
            else Some (acc @ take 1 s @ sg @ takeWhile is_digit s3, dropWhile is_digit s3))
      else Some (acc, s))"

definition lex_frac :: "jstring \<Rightarrow> jstring \<Rightarrow> (jstring \<times> jstring) option" where
  "lex_frac acc s =
     (if take 1 s = [46] then
        (if takeWhile is_digit (drop 1 s) = [] then None
         else lex_exp (acc @ 46 # takeWhile is_digit (drop 1 s))
                (dropWhile is_digit (drop 1 s)))
      else lex_exp acc s)"

definition lex_number :: "jstring \<Rightarrow> (jstring \<times> jstring) option" where
  "lex_number s =
     (let sg = (if take 1 s = [45] then [45] else []);
          s1 = drop (length sg) s
      in case s1 of
           [] \<Rightarrow> None
         | d # r \<Rightarrow>
             if d = 48 then lex_frac (sg @ [48]) r
             else if 49 \<le> d \<and> d \<le> 57
             then lex_frac (sg @ d # takeWhile is_digit r) (dropWhile is_digit r)
             else None)"

text \<open>The lexer: white space is space, tab, line feed and carriage return.\<close>

function lex :: "jstring \<Rightarrow> token list option" where
  "lex [] = Some []"
| "lex (c # cs) =
     (if c = 32 \<or> c = 9 \<or> c = 10 \<or> c = 13 then lex cs
      else if c = 123 then map_option (Cons TLBrace) (lex cs)
      else if c = 125 then map_option (Cons TRBrace) (lex cs)
      else if c = 91 then map_option (Cons TLBracket) (lex cs)
      else if c = 93 then map_option (Cons TRBracket) (lex cs)
      else if c = 58 then map_option (Cons TColon) (lex cs)
      else if c = 44 then map_option (Cons TComma) (lex cs)
      else if c = 34 then
        (case lex_string cs of
           None \<Rightarrow> None
         | Some (s, r) \<Rightarrow> map_option (Cons (TString s)) (lex r))
      else if take 4 (c # cs) = js ''true'' then map_option (Cons TTrue) (lex (drop 3 cs))
      else if take 5 (c # cs) = js ''false'' then map_option (Cons TFalse) (lex (drop 4 cs))
      else if take 4 (c # cs) = js ''null'' then map_option (Cons TNull) (lex (drop 3 cs))
      else
        (case lex_number (c # cs) of
           None \<Rightarrow> None
         | Some (n, r) \<Rightarrow> map_option (Cons (TNumber n)) (lex r)))"
  by pat_completeness auto
termination
proof -
  have lex_string_shorter: "length r < length s" if "lex_string s = Some (x, r)" for s x r
    using that
  proof (induction s arbitrary: x r rule: lex_string.induct)
    case 1
    then show ?case by simp
  next
    case (2 c cs)
    show ?case
    proof (cases "c = 34")
      case True
      with "2.prems" show ?thesis by simp
    next
      case notq: False
      show ?thesis
      proof (cases "c = 92")
        case True
        show ?thesis
        proof (cases cs)
          case Nil
          with "2.prems" notq True show ?thesis by simp
        next
          case (Cons e es)
          show ?thesis
          proof (cases "e = 117")
            case u: True
            from "2.prems" notq True Cons u obtain v s' where
              hv: "hex4 (take 4 es) = Some v" and
              hs: "lex_string (drop 4 es) = Some (s', r)"
              by (auto split: option.splits)
            from "2.IH"(1)[OF notq True Cons u hv hs]
            have "length r < length (drop 4 es)" .
            with Cons show ?thesis by simp
          next
            case nu: False
            from "2.prems" notq True Cons nu obtain v s' where
              hv: "unescape e = Some v" and
              hs: "lex_string es = Some (s', r)"
              by (auto split: option.splits)
            from "2.IH"(2)[OF notq True Cons nu hv hs]
            have "length r < length es" .
            with Cons show ?thesis by simp
          qed
        qed
      next
        case nb: False
        from "2.prems" notq nb obtain s' where
          hc: "\<not> c < 32" and hs: "lex_string cs = Some (s', r)"
          by (auto split: option.splits if_splits)
        from "2.IH"(3)[OF notq nb hc hs] show ?thesis by simp
      qed
    qed
  qed
  have drop_le: "length (dropWhile P (drop n s)) \<le> length s" for P n and s :: jstring
    by (rule le_trans[OF length_dropWhile_le]) simp
  have lex_exp_shorter: "length r \<le> length s" if "lex_exp acc s = Some (x, r)" for acc s x r
    using that by (auto simp: lex_exp_def Let_def drop_le split: if_splits)
  have lex_frac_shorter: "length r \<le> length s" if h: "lex_frac acc s = Some (x, r)"
    for acc s x r
  proof (cases "take 1 s = [46]")
    case True
    with h obtain acc' where
      "lex_exp acc' (dropWhile is_digit (drop 1 s)) = Some (x, r)"
      by (auto simp: lex_frac_def split: if_splits)
    then have "length r \<le> length (dropWhile is_digit (drop 1 s))"
      by (rule lex_exp_shorter)
    also have "\<dots> \<le> length (drop 1 s)"
      by (rule length_dropWhile_le)
    finally show ?thesis by simp
  next
    case False
    with h have "lex_exp acc s = Some (x, r)"
      by (simp add: lex_frac_def)
    then show ?thesis by (rule lex_exp_shorter)
  qed
  have lex_number_shorter: "length r < length s" if h: "lex_number s = Some (x, r)" for s x r
  proof -
    define sg :: jstring where "sg = (if take 1 s = [45] then [45] else [])"
    from h obtain d t where s1: "drop (length sg) s = d # t"
      by (auto simp: lex_number_def Let_def sg_def split: list.splits)
    have t: "length t < length s"
    proof -
      have "length (d # t) \<le> length s"
        unfolding s1[symmetric] by simp
      then show ?thesis by simp
    qed
    from h s1 consider acc where "lex_frac acc t = Some (x, r)"
      | acc where "lex_frac acc (dropWhile is_digit t) = Some (x, r)"
      by (auto simp: lex_number_def Let_def sg_def split: if_splits)
    then show ?thesis
    proof cases
      case 1
      then have "length r \<le> length t" by (rule lex_frac_shorter)
      with t show ?thesis by simp
    next
      case 2
      then have "length r \<le> length (dropWhile is_digit t)" by (rule lex_frac_shorter)
      also have "\<dots> \<le> length t" by (rule length_dropWhile_le)
      finally show ?thesis using t by simp
    qed
  qed
  show ?thesis
    by (relation "measure length") (auto dest: lex_string_shorter lex_number_shorter)
qed

text \<open>
  The recogniser. A frame is an array or an object under construction; the mode says
  which token may come next.
\<close>

datatype frame =
    FArr "json list"
  | FObj "(jstring \<times> json) list"
  | FKey "(jstring \<times> json) list" jstring

datatype mode =
    MValue | MFirstElem | MArrNext | MFirstKey | MKey | MColon | MObjNext
  | MDone json

type_synonym pstate = "mode \<times> frame list"

fun complete :: "json \<Rightarrow> frame list \<Rightarrow> pstate option" where
  "complete v [] = Some (MDone v, [])"
| "complete v (FArr xs # st) = Some (MArrNext, FArr (xs @ [v]) # st)"
| "complete v (FKey ms k # st) = Some (MObjNext, FObj (ms @ [(k, v)]) # st)"
| "complete v (FObj ms # st) = None"

fun value_start :: "token \<Rightarrow> frame list \<Rightarrow> pstate option" where
  "value_start TLBrace st = Some (MFirstKey, FObj [] # st)"
| "value_start TLBracket st = Some (MFirstElem, FArr [] # st)"
| "value_start (TString s) st = complete (JStr s) st"
| "value_start (TNumber n) st = complete (JNum n) st"
| "value_start TTrue st = complete (JBool True) st"
| "value_start TFalse st = complete (JBool False) st"
| "value_start TNull st = complete JNull st"
| "value_start t st = None"

fun close_array :: "frame list \<Rightarrow> pstate option" where
  "close_array (FArr xs # st) = complete (JArr xs) st"
| "close_array st = None"

fun close_object :: "frame list \<Rightarrow> pstate option" where
  "close_object (FObj ms # st) = complete (JObj ms) st"
| "close_object st = None"

fun open_key :: "jstring \<Rightarrow> frame list \<Rightarrow> pstate option" where
  "open_key k (FObj ms # st) = Some (MColon, FKey ms k # st)"
| "open_key k st = None"

fun pstep :: "pstate \<Rightarrow> token \<Rightarrow> pstate option" where
  "pstep (MValue, st) t = value_start t st"
| "pstep (MFirstElem, st) t = (if t = TRBracket then close_array st else value_start t st)"
| "pstep (MArrNext, st) t =
     (if t = TComma then Some (MValue, st)
      else if t = TRBracket then close_array st
      else None)"
| "pstep (MFirstKey, st) t =
     (case t of TRBrace \<Rightarrow> close_object st | TString k \<Rightarrow> open_key k st | _ \<Rightarrow> None)"
| "pstep (MKey, st) t = (case t of TString k \<Rightarrow> open_key k st | _ \<Rightarrow> None)"
| "pstep (MColon, st) t = (if t = TColon then Some (MValue, st) else None)"
| "pstep (MObjNext, st) t =
     (if t = TComma then Some (MKey, st)
      else if t = TRBrace then close_object st
      else None)"
| "pstep (MDone v, st) t = None"

fun prun :: "pstate \<Rightarrow> token list \<Rightarrow> pstate option" where
  "prun s [] = Some s"
| "prun s (t # ts) = (case pstep s t of None \<Rightarrow> None | Some s' \<Rightarrow> prun s' ts)"

definition JSON_parse :: "jstring \<Rightarrow> exn + json" where
  "JSON_parse txt =
     (case lex txt of
        None \<Rightarrow> Inl SyntaxError
      | Some ts \<Rightarrow>
          (case prun (MValue, []) ts of
             Some (MDone v, []) \<Rightarrow> Inr v
           | _ \<Rightarrow> Inl SyntaxError))"

section \<open>TextDecoder\<close>

text \<open>
  \<open>new TextDecoder('utf-8').decode(value)\<close>, called without the \<open>stream\<close> option:
  every call decodes its bytes on their own, in the decoder's initial state, and flushes
  at the end. The decoder is the UTF-8 decoder of the WHATWG Encoding standard: a
  malformed or unfinished sequence gives U+FFFD and never throws. Its state is the code
  point being assembled, the continuation bytes still needed and the bounds of the next
  byte.
\<close>

type_synonym utf8_state = "nat \<times> nat \<times> nat \<times> nat"

definition utf8_init :: utf8_state where
  "utf8_init = (0, 0, 128, 191)"

text \<open>A byte read while no sequence is pending.\<close>

definition utf8_lead :: "nat \<Rightarrow> nat list \<times> utf8_state" where
  "utf8_lead b =
     (if b \<le> 127 then ([b], utf8_init)
      else if 194 \<le> b \<and> b \<le> 223 then ([], (b mod 32, 1, 128, 191))
      else if 224 \<le> b \<and> b \<le> 239 then
        ([], (b mod 16, 2, if b = 224 then 160 else 128, if b = 237 then 159 else 191))
      else if 240 \<le> b \<and> b \<le> 244 then
        ([], (b mod 8, 3, if b = 240 then 144 else 128, if b = 244 then 143 else 191))
      else ([65533], utf8_init))"

text \<open>
  One byte: the code points it completes and the next state. A byte outside the bounds
  ends the pending sequence with U+FFFD and is read again as a lead byte.
\<close>

fun utf8_feed :: "utf8_state \<Rightarrow> nat \<Rightarrow> nat list \<times> utf8_state" where
  "utf8_feed (cp, n, lo, hi) b =
     (if n = 0 then utf8_lead b
      else if lo \<le> b \<and> b \<le> hi then
        (if n = 1 then ([cp * 64 + b mod 64], utf8_init)
         else ([], (cp * 64 + b mod 64, n - 1, 128, 191)))
      else (case utf8_lead b of (out, st) \<Rightarrow> (65533 # out, st)))"

fun utf8_run :: "utf8_state \<Rightarrow> nat list \<Rightarrow> nat list" where
  "utf8_run (cp, n, lo, hi) [] = (if n = 0 then [] else [65533])"
| "utf8_run st (b # bs) = (case utf8_feed st b of (out, st') \<Rightarrow> out @ utf8_run st' bs)"

text \<open>The UTF-16 code units of a code point.\<close>

definition utf16_units :: "nat \<Rightarrow> jstring" where
  "utf16_units cp =
     (if cp < 65536 then [cp]
      else [55296 + (cp - 65536) div 1024, 56320 + (cp - 65536) mod 1024])"

text \<open>The decoded string; a byte order mark at its start is dropped.\<close>

definition TextDecoder_decode :: "nat list \<Rightarrow> jstring" where
  "TextDecoder_decode bytes =
     (let cps = utf8_run utf8_init bytes
      in concat (map utf16_units (if take 1 cps = [65279] then drop 1 cps else cps)))"

section \<open>The component's state and its collaborators\<close>

text \<open>
  A chat message \<open>{ text, sender }\<close>; \<open>sender\<close> is the string \<open>'user'\<close> or \<open>'ai'\<close>.
\<close>

record message =
  text_of :: jstring
  sender :: jstring

text \<open>The call sites of \<open>console.error\<close> and \<open>console.log\<close> that the handlers reach.\<close>

datatype console_entry =
    ErrorInAIQuery
  | ErrorFetchingCryptoPrice
  | ErrorConnectingWallet
  | ErrorParsingChunk
  | EthereumProviderNotAvailable
  | UserAuthenticated
  | ErrorAuthenticatingUser

text \<open>
  The React state of \<open>AIResponse\<close> (\<open>response\<close>, \<open>loading\<close>, \<open>chatHistory\<close>), the
  module variable \<open>userAuthSig\<close>, and two records of effects: \<open>responseTrace\<close> lists
  every value \<open>setResponse\<close> gave \<open>response\<close>, oldest first, and \<open>console\<close> the console
  calls. \<open>query\<close> is not written by the handlers and is passed as an argument.
\<close>

record app =
  response :: jstring
  loading :: bool
  chatHistory :: "message list"
  userAuthSig :: "jstring option"
  responseTrace :: "jstring list"
  console :: "console_entry list"

text \<open>The state of a freshly mounted component.\<close>

definition initial_app :: app where
  "initial_app =
     \<lparr>response = [], loading = False, chatHistory = [], userAuthSig = None,
      responseTrace = [], console = []\<rparr>"

text \<open>
  How a body stream ends: \<open>reader.read()\<close> reports \<open>done\<close>, or rejects. A stream is the
  list of the chunks its reads deliver before that. A stream that never ends would keep
  the handler waiting; it is not among the streams described here.
\<close>

datatype stream_end = Done | Errored

type_synonym stream = "nat list list \<times> stream_end"

text \<open>
  What \<open>fetch\<close> gives: a rejection, or a response with its \<open>ok\<close> flag and its \<open>body\<close>
  (\<open>None\<close> for \<open>null\<close>).
\<close>

datatype fetch_outcome = FetchRejected | FetchResponse bool "stream option"

text \<open>
  The collaborators, as what they answer:
  \<^item> \<open>ethereum\<close>: \<open>None\<close> when \<open>window.ethereum\<close> is absent, else the outcome of
    \<open>request({ method: 'eth_requestAccounts' })\<close>, a rejection or the accounts;
  \<^item> \<open>checkAndSignAuthMessage\<close>: a rejection or the signature;
  \<^item> \<open>axios_get\<close>: for a URL, a rejection or \<open>res.data\<close>;
  \<^item> \<open>fetch_generate\<close>: for a prompt, the outcome of the POST to \<open>/api/generate\<close>.
\<close>

record env =
  ethereum :: "(exn + jstring list) option"
  checkAndSignAuthMessage :: "exn + jstring"
  axios_get :: "jstring \<Rightarrow> exn + json"
  fetch_generate :: "jstring \<Rightarrow> fetch_outcome"

section \<open>The handlers\<close>

definition setResponse :: "jstring \<Rightarrow> app \<Rightarrow> app" where
  "setResponse v st = st\<lparr>response := v, responseTrace := responseTrace st @ [v]\<rparr>"

text \<open>\<open>setResponse((prev) => f(prev))\<close>.\<close>

definition updateResponse :: "(jstring \<Rightarrow> jstring) \<Rightarrow> app \<Rightarrow> app" where
  "updateResponse f st = setResponse (f (response st)) st"

definition setLoading :: "bool \<Rightarrow> app \<Rightarrow> app" where
  "setLoading b st = st\<lparr>loading := b\<rparr>"

text \<open>\<open>setChatHistory((prev) => [...prev, m])\<close>.\<close>

definition appendChat :: "message \<Rightarrow> app \<Rightarrow> app" where
  "appendChat m st = st\<lparr>chatHistory := chatHistory st @ [m]\<rparr>"

definition console_log :: "console_entry \<Rightarrow> app \<Rightarrow> app" where
  "console_log e st = st\<lparr>console := console st @ [e]\<rparr>"

text \<open>\<open>authenticateUser\<close> catches its own errors; its result is not used by its caller.\<close>

definition authenticateUser :: "env \<Rightarrow> app \<Rightarrow> app" where
  "authenticateUser E st =
     (case ethereum E of
        None \<Rightarrow> console_log EthereumProviderNotAvailable st
      | Some _ \<Rightarrow>
          (case checkAndSignAuthMessage E of
             Inl e \<Rightarrow> console_log ErrorAuthenticatingUser st
           | Inr authSig \<Rightarrow> console_log UserAuthenticated (st\<lparr>userAuthSig := Some authSig\<rparr>)))"

definition handleConnect :: "env \<Rightarrow> app \<Rightarrow> app" where
  "handleConnect E st0 =
     (let st = setResponse (js ''Connecting to wallet...'') st0 in
      case ethereum E of
        None \<Rightarrow> setResponse (js ''No Ethereum provider detected.'') st
      | Some (Inl e) \<Rightarrow>
          console_log ErrorConnectingWallet
            (setResponse (js ''Failed to connect wallet or authenticate.'') st)
      | Some (Inr accounts) \<Rightarrow>
          (case accounts of
             [] \<Rightarrow> setResponse (js ''No wallet connected'') st
           | connectedAddress # _ \<Rightarrow>
               setResponse
                 (js ''Connected to wallet: '' @ connectedAddress
                    @ js '' and authenticated successfully!'')
                 (authenticateUser E
                    (setResponse (js ''Connected to wallet: '' @ connectedAddress) st))))"

text \<open>
  The body of the \<open>try\<close> of \<open>fetchCryptoPrice\<close> once \<open>axios.get\<close> has answered
  \<open>data\<close>:
  \<^verbatim>\<open>if (res.data && res.data[symbol]) return res.data[symbol].usd || 'Price not found';
  else return 'Price not found';\<close>
\<close>

definition price_of_data :: "platform \<Rightarrow> json \<Rightarrow> jstring \<Rightarrow> exn + json" where
  "price_of_data P data key =
     (if \<not> truthy P data then Inr (JStr (js ''Price not found''))
      else
        (case js_get data key of
           Inl e \<Rightarrow> Inl e
         | Inr None \<Rightarrow> Inr (JStr (js ''Price not found''))
         | Inr (Some entry) \<Rightarrow>
             if \<not> truthy P entry then Inr (JStr (js ''Price not found''))
             else
               (case js_get entry (js ''usd'') of
                  Inl e \<Rightarrow> Inl e
                | Inr None \<Rightarrow> Inr (JStr (js ''Price not found''))
                | Inr (Some usd) \<Rightarrow>
                    Inr (if truthy P usd then usd else JStr (js ''Price not found'')))))"

definition price_url :: "platform \<Rightarrow> symbol \<Rightarrow> jstring" where
  "price_url P symbol =
     js ''https://api.coingecko.com/api/v3/simple/price?ids='' @ symbol_text P symbol
       @ js ''&vs_currencies=usd''"

text \<open>
  \<open>fetchCryptoPrice\<close> never throws: a rejection of \<open>axios.get\<close> and an exception of
  the body are caught and answered with \<open>'Error fetching price'\<close>.
\<close>

definition fetchCryptoPrice :: "platform \<Rightarrow> env \<Rightarrow> symbol \<Rightarrow> app \<Rightarrow> json \<times> app" where
  "fetchCryptoPrice P E symbol st =
     (case axios_get E (price_url P symbol) of
        Inl e \<Rightarrow> (JStr (js ''Error fetching price''), console_log ErrorFetchingCryptoPrice st)
      | Inr data \<Rightarrow>
          (case price_of_data P data (symbol_text P symbol) of
             Inl e \<Rightarrow>
               (JStr (js ''Error fetching price''), console_log ErrorFetchingCryptoPrice st)
           | Inr price \<Rightarrow> (price, st)))"

text \<open>
  The body of the inner \<open>try\<close> of the read loop, up to the text it appends:
  \<^verbatim>\<open>const parsedChunk = JSON.parse(chunk);
  fullResponse += parsedChunk.response || '';\<close>
  It throws when the chunk is not JSON, when it is \<open>null\<close>, and when the value to
  append cannot be converted to a string.
\<close>

definition chunk_delta :: "platform \<Rightarrow> jstring \<Rightarrow> exn + jstring" where
  "chunk_delta P chunk =
     (case JSON_parse chunk of
        Inl e \<Rightarrow> Inl e
      | Inr parsedChunk \<Rightarrow>
          (case js_get parsedChunk (js ''response'') of
             Inl e \<Rightarrow> Inl e
           | Inr None \<Rightarrow> Inr []
           | Inr (Some r) \<Rightarrow> if truthy P r then js_toString P r else Inr []))"

text \<open>
  One turn of the loop after a read delivered \<open>value\<close>; the first component is the
  local variable \<open>fullResponse\<close>.
\<close>

definition process_chunk :: "platform \<Rightarrow> nat list \<Rightarrow> jstring \<times> app \<Rightarrow> jstring \<times> app" where
  "process_chunk P val s =
     (case s of (fullResponse, st) \<Rightarrow>
        (let chunk = TextDecoder_decode val in
         case chunk_delta P chunk of
           Inl e \<Rightarrow> (fullResponse, console_log ErrorParsingChunk st)
         | Inr d \<Rightarrow> (fullResponse @ d, updateResponse (\<lambda>prev. prev @ d) st)))"

fun read_loop :: "platform \<Rightarrow> nat list list \<Rightarrow> jstring \<times> app \<Rightarrow> jstring \<times> app" where
  "read_loop P [] s = s"
| "read_loop P (v # vs) s = read_loop P vs (process_chunk P v s)"

text \<open>
  \<open>handleOllamaQuery\<close>. Its outer \<open>catch\<close> takes a rejected \<open>fetch\<close>, a \<open>null\<close> body
  and a rejected read; nothing escapes it.
\<close>

definition handleOllamaQuery :: "platform \<Rightarrow> env \<Rightarrow> jstring \<Rightarrow> app \<Rightarrow> app" where
  "handleOllamaQuery P E query st =
     (case fetch_generate E query of
        FetchRejected \<Rightarrow> setResponse (js ''Failed to get a response from Ollama'') st
      | FetchResponse ok body \<Rightarrow>
          if \<not> ok then setResponse (js ''Failed to get AI response'') st
          else
            (case body of
               None \<Rightarrow> setResponse (js ''Failed to get a response from Ollama'') st
             | Some (vals, ending) \<Rightarrow>
                 (case read_loop P vals ([], st) of
                    (fullResponse, st') \<Rightarrow>
                      (case ending of
                         Done \<Rightarrow> appendChat \<lparr>text_of = fullResponse, sender = js ''ai''\<rparr> st'
                       | Errored \<Rightarrow>
                           setResponse (js ''Failed to get a response from Ollama'') st'))))"

text \<open>
  \<open>handleQuery\<close>. Every path ends in the \<open>finally\<close> block, \<open>setLoading(false)\<close>. The
  one exception that reaches the \<open>catch\<close> is a price that the template literal cannot
  convert to a string.
\<close>

definition handleQuery :: "platform \<Rightarrow> env \<Rightarrow> jstring \<Rightarrow> app \<Rightarrow> app" where
  "handleQuery P E query st0 =
     (let st1 = setResponse [] (setLoading True st0) in
      if trim query = [] then
        setLoading False (setLoading False (setResponse (js ''Please enter a query'') st1))
      else
        (let st2 = appendChat \<lparr>text_of = query, sender = js ''user''\<rparr> st1 in
         if toLowerCase query = js ''connect'' then setLoading False (handleConnect E st2)
         else if str_includes (toLowerCase query) (js ''price of'') then
           (case extractCryptoSymbol query of
              None \<Rightarrow>
                setLoading False (setLoading False (setResponse
                  (js ''Please provide a valid cryptocurrency name or symbol.'') st2))
            | Some cryptoSymbol \<Rightarrow>
                if \<not> symbol_truthy cryptoSymbol then
                  setLoading False (setLoading False (setResponse
                    (js ''Please provide a valid cryptocurrency name or symbol.'') st2))
                else
                  (case fetchCryptoPrice P E cryptoSymbol st2 of
                     (cryptoPrice, st3) \<Rightarrow>
                       (case js_toString P cryptoPrice of
                          Inl e \<Rightarrow>
                            setLoading False (setResponse (js ''Failed to get a response'')
                              (console_log ErrorInAIQuery st3))
                        | Inr p \<Rightarrow>
                            (let msg = js ''The current price of ''
                                   @ symbol_text P cryptoSymbol @ js '' is $'' @ p
                             in setLoading False
                                  (appendChat \<lparr>text_of = msg, sender = js ''ai''\<rparr>
                                     (setResponse msg st3))))))
         else setLoading False (handleOllamaQuery P E query st2)))"

text \<open>
  The branch of \<open>handleQuery\<close> a query takes, as a value: the tests of \<open>handleQuery\<close> in
  their order. \<open>Invalid\<close> carries the message shown.
\<close>

datatype intent = Invalid jstring | Connect | PriceQuery symbol | GenericQuery jstring

definition classify :: "jstring \<Rightarrow> intent" where
  "classify query =
     (if trim query = [] then Invalid (js ''Please enter a query'')
      else if toLowerCase query = js ''connect'' then Connect
      else if str_includes (toLowerCase query) (js ''price of'') then
        (case extractCryptoSymbol query of
           None \<Rightarrow> Invalid (js ''Please provide a valid cryptocurrency name or symbol.'')
         | Some cryptoSymbol \<Rightarrow>
             if \<not> symbol_truthy cryptoSymbol
             then Invalid (js ''Please provide a valid cryptocurrency name or symbol.'')
             else PriceQuery cryptoSymbol)
      else GenericQuery query)"

section \<open>Notions of the specification\<close>

text \<open>The entries of a log by sender: \<open>User\<close> is \<open>'user'\<close>, \<open>Agent\<close> is \<open>'ai'\<close>.\<close>

definition user_entries :: "message list \<Rightarrow> message list" where
  "user_entries ms = filter (\<lambda>m. sender m = js ''user'') ms"

definition agent_entries :: "message list \<Rightarrow> message list" where
  "agent_entries ms = filter (\<lambda>m. sender m = js ''ai'') ms"

text \<open>
  The text one read contributes to the accumulated answer: the delta of its chunk, or
  nothing when the body of the \<open>try\<close> throws.
\<close>

definition read_delta :: "platform \<Rightarrow> nat list \<Rightarrow> jstring" where
  "read_delta P val =
     (case chunk_delta P (TextDecoder_decode val) of Inl e \<Rightarrow> [] | Inr d \<Rightarrow> d)"

text \<open>
  The price a response carries for a symbol: the \<open>usd\<close> member of the response's
  member for the symbol, when it is there and truthy. \<open>None\<close> when the response
  carries no price for the symbol.
\<close>

definition quoted_price :: "platform \<Rightarrow> json \<Rightarrow> jstring \<Rightarrow> json option" where
  "quoted_price P data key =
     (case js_get data key of
        Inr (Some entry) \<Rightarrow>
          (case js_get entry (js ''usd'') of
             Inr (Some usd) \<Rightarrow> if truthy P usd then Some usd else None
           | _ \<Rightarrow> None)
      | _ \<Rightarrow> None)"

text \<open>A parsed value that is an object.\<close>

fun is_object :: "json \<Rightarrow> bool" where
  "is_object (JObj ms) = True"
| "is_object v = False"

section \<open>Example collaborators\<close>

text \<open>
  Concrete collaborators on which the theorems are instantiated: a platform, and an
  environment in which no collaborator answers. The platform is a stand-in for an
  engine: it takes a number for zero when its digits before the exponent are all \<open>0\<close>
  (exact but for underflow), prints a number as its literal (exact on the plain integer
  literals of at most fifteen digits; the examples quote no other number), and prints a
  built-in as V8 does.
\<close>

definition example_platform :: platform where
  "example_platform =
     \<lparr>number_is_zero =
        (\<lambda>n. list_all (\<lambda>c. \<not> (49 \<le> c \<and> c \<le> 57))
                (takeWhile (\<lambda>c. c \<noteq> 101 \<and> c \<noteq> 69) n)),
      number_to_string = (\<lambda>n. n),
      builtin_to_string =
        (\<lambda>n. if n = js ''__proto__'' then js ''[object Object]''
             else js ''function '' @ (if n = js ''constructor'' then js ''Object'' else n)
                    @ js ''() { [native code] }'')\<rparr>"

definition offline :: env where
  "offline =
     \<lparr>ethereum = None,
      checkAndSignAuthMessage = Inl Rejected,
      axios_get = (\<lambda>url. Inl Rejected),
      fetch_generate = (\<lambda>prompt. FetchRejected)\<rparr>"

text \<open>A wallet that grants one account and signs.\<close>

definition wallet :: "jstring \<Rightarrow> env" where
  "wallet address =
     offline\<lparr>ethereum := Some (Inr [address]), checkAndSignAuthMessage := Inr (js ''sig'')\<rparr>"

text \<open>A price service that answers every request with \<open>data\<close>.\<close>

definition pricing :: "json \<Rightarrow> env" where
  "pricing data = offline\<lparr>axios_get := (\<lambda>url. Inr data)\<rparr>"

text \<open>An inference service whose body delivers the chunks \<open>vals\<close> and then ends.\<close>

definition streaming :: "nat list list \<Rightarrow> env" where
  "streaming vals = offline\<lparr>fetch_generate := (\<lambda>prompt. FetchResponse True (Some (vals, Done)))\<rparr>"

section \<open>Properties of symbol resolution\<close>

lemma resolve_mapped:
  "map_of cryptoSymbolMappings (toLowerCase token) = Some v \<Longrightarrow> resolve token = Sym v"
proof -
  assume h: "map_of cryptoSymbolMappings (toLowerCase token) = Some v"
  then have "(toLowerCase token, v) \<in> set cryptoSymbolMappings"
    by (rule map_of_SomeD)
  then have "v \<noteq> []"
    by (auto simp: cryptoSymbolMappings_def)
  with h show ?thesis
    by (simp add: resolve_def mappings_get_def)
qed

lemma resolve_unmapped:
  "map_of cryptoSymbolMappings (toLowerCase token) = None \<Longrightarrow>
   toLowerCase token \<notin> set Object_prototype_members \<Longrightarrow>
   resolve token = Sym (toLowerCase token)"
  by (simp add: resolve_def mappings_get_def)

lemma resolve_ETH: "resolve (js ''ETH'') = Sym (js ''ethereum'')"
  by (simp add: resolve_def mappings_get_def toLowerCase_def lowerUnit_def
      cryptoSymbolMappings_def)

lemma resolve_xyz: "resolve (js ''xyz'') = Sym (js ''xyz'')"
  by (simp add: resolve_def mappings_get_def toLowerCase_def lowerUnit_def
      cryptoSymbolMappings_def Object_prototype_members_def)

text \<open>
  C9. The claim: for every token, \<open>resolve\<close> returns the mapped identifier when the
  lower-cased token is a key of the mapping, and otherwise the lower-cased token itself,
  as a string. The token \<open>constructor\<close> is not a key of the mapping, yet the member read
  finds \<open>Object.prototype.constructor\<close>, which is truthy, and the code returns that
  function instead of the string \<open>constructor\<close>.
\<close>

theorem resolve_constructor_not_string:
  "map_of cryptoSymbolMappings (toLowerCase (js ''constructor'')) = None
   \<and> resolve (js ''constructor'') = Inherited (js ''constructor'')
   \<and> resolve (js ''constructor'') \<noteq> Sym (toLowerCase (js ''constructor''))
   \<and> extractCryptoSymbol (js ''price of constructor'') = Some (Inherited (js ''constructor''))"
  by (simp add: extractCryptoSymbol_def resolve_def mappings_get_def toLowerCase_def
      lowerUnit_def cryptoSymbolMappings_def Object_prototype_members_def is_word_def)

section \<open>What the handlers do to the state\<close>

lemma chatHistory_setResponse: "chatHistory (setResponse v st) = chatHistory st"
  by (simp add: setResponse_def)

lemma chatHistory_updateResponse: "chatHistory (updateResponse f st) = chatHistory st"
  by (simp add: updateResponse_def setResponse_def)

lemma chatHistory_setLoading: "chatHistory (setLoading b st) = chatHistory st"
  by (simp add: setLoading_def)

lemma chatHistory_console_log: "chatHistory (console_log e st) = chatHistory st"
  by (simp add: console_log_def)

lemma chatHistory_appendChat: "chatHistory (appendChat m st) = chatHistory st @ [m]"
  by (simp add: appendChat_def)

lemmas chatHistory_simps =
  chatHistory_setResponse chatHistory_updateResponse chatHistory_setLoading
  chatHistory_console_log chatHistory_appendChat

lemma response_setResponse: "response (setResponse v st) = v"
  by (simp add: setResponse_def)

lemma response_setLoading: "response (setLoading b st) = response st"
  by (simp add: setLoading_def)

lemma response_console_log: "response (console_log e st) = response st"
  by (simp add: console_log_def)

lemma response_appendChat: "response (appendChat m st) = response st"
  by (simp add: appendChat_def)

lemmas response_simps =
  response_setResponse response_setLoading response_console_log response_appendChat

lemma chatHistory_authenticateUser: "chatHistory (authenticateUser E st) = chatHistory st"
  by (simp add: authenticateUser_def chatHistory_simps split: option.splits sum.splits)

lemma chatHistory_handleConnect: "chatHistory (handleConnect E st) = chatHistory st"
  by (simp add: handleConnect_def Let_def chatHistory_simps chatHistory_authenticateUser
      split: option.splits sum.splits list.splits)

lemma chatHistory_fetchCryptoPrice:
  "chatHistory (snd (fetchCryptoPrice P E symbol st)) = chatHistory st"
  by (simp add: fetchCryptoPrice_def chatHistory_simps split: sum.splits)

lemma fst_process_chunk: "fst (process_chunk P v (f, st)) = f @ read_delta P v"
  by (simp add: process_chunk_def read_delta_def Let_def split: sum.splits)

lemma chatHistory_process_chunk:
  "chatHistory (snd (process_chunk P v s)) = chatHistory (snd s)"
  by (cases s) (simp add: process_chunk_def Let_def chatHistory_simps split: sum.splits)

lemma fst_read_loop:
  "fst (read_loop P vs (f, st)) = f @ concat (map (read_delta P) vs)"
proof (induction vs arbitrary: f st)
  case Nil
  then show ?case by simp
next
  case (Cons v vs)
  obtain f' st' where p: "process_chunk P v (f, st) = (f', st')"
    by (cases "process_chunk P v (f, st)")
  then have "f' = f @ read_delta P v"
    using fst_process_chunk[of P v f st] by simp
  with Cons.IH[of f' st'] p show ?case by simp
qed

lemma chatHistory_read_loop:
  "chatHistory (snd (read_loop P vs s)) = chatHistory (snd s)"
  by (induction vs arbitrary: s) (simp_all add: chatHistory_process_chunk)

lemma chatHistory_handleOllamaQuery:
  "chatHistory (handleOllamaQuery P E query st) =
     chatHistory st @
       (case fetch_generate E query of
          FetchResponse True (Some (vals, Done)) \<Rightarrow>
            [\<lparr>text_of = concat (map (read_delta P) vals), sender = js ''ai''\<rparr>]
        | _ \<Rightarrow> [])"
proof (cases "fetch_generate E query")
  case FetchRejected
  then show ?thesis by (simp add: handleOllamaQuery_def chatHistory_simps)
next
  case (FetchResponse ok body)
  show ?thesis
  proof (cases "ok \<and> body \<noteq> None")
    case False
    with FetchResponse show ?thesis
      by (auto simp: handleOllamaQuery_def chatHistory_simps split: option.splits bool.splits)
  next
    case True
    then obtain vals ending where b: "body = Some (vals, ending)" and ok: ok by auto
    obtain f st' where r: "read_loop P vals ([], st) = (f, st')"
      by (cases "read_loop P vals ([], st)")
    have f: "f = concat (map (read_delta P) vals)"
      using fst_read_loop[of P vals "[]" st] r by simp
    have h: "chatHistory st' = chatHistory st"
      using chatHistory_read_loop[of P vals "([], st)"] r by simp
    from FetchResponse b ok r f h show ?thesis
      by (cases ending) (simp_all add: handleOllamaQuery_def chatHistory_simps)
  qed
qed


section \<open>The conversation log\<close>

lemma handleOllamaQuery_agents:
  "\<exists>agents. chatHistory (handleOllamaQuery P E query st) = chatHistory st @ agents
     \<and> length agents \<le> 1 \<and> agent_entries agents = agents"
  unfolding chatHistory_handleOllamaQuery
  by (simp add: agent_entries_def
      split: fetch_outcome.split bool.split option.split stream_end.split prod.split)

lemma handleQuery_empty:
  "trim query = [] \<Longrightarrow> chatHistory (handleQuery P E query st) = chatHistory st"
  by (simp add: handleQuery_def Let_def chatHistory_simps)

lemma handleQuery_nonempty:
  assumes "trim query \<noteq> []"
  shows "\<exists>agents. chatHistory (handleQuery P E query st) =
            chatHistory st @ \<lparr>text_of = query, sender = js ''user''\<rparr> # agents
          \<and> length agents \<le> 1 \<and> agent_entries agents = agents"
proof -
  let ?u = "\<lparr>text_of = query, sender = js ''user''\<rparr>"
  let ?st2 = "appendChat ?u (setResponse [] (setLoading True st))"
  have h2: "chatHistory ?st2 = chatHistory st @ [?u]"
    by (simp add: chatHistory_simps)
  show ?thesis
  proof (cases "classify query")
    case (Invalid m)
    with assms have "chatHistory (handleQuery P E query st) = chatHistory st @ [?u]"
      by (simp add: handleQuery_def classify_def Let_def chatHistory_simps
          split: if_splits option.splits)
    then show ?thesis by (simp add: agent_entries_def)
  next
    case Connect
    with assms have "chatHistory (handleQuery P E query st) = chatHistory st @ [?u]"
      by (simp add: handleQuery_def classify_def Let_def chatHistory_simps
          chatHistory_handleConnect split: if_splits option.splits)
    then show ?thesis by (simp add: agent_entries_def)
  next
    case (PriceQuery s)
    obtain price st3 where f: "fetchCryptoPrice P E s ?st2 = (price, st3)"
      by (cases "fetchCryptoPrice P E s ?st2")
    have h3: "chatHistory st3 = chatHistory st @ [?u]"
      using chatHistory_fetchCryptoPrice[of P E s ?st2] f h2 by simp
    from PriceQuery assms have c: "toLowerCase query \<noteq> js ''connect''"
      "str_includes (toLowerCase query) (js ''price of'')"
      "extractCryptoSymbol query = Some s" "symbol_truthy s"
      by (auto simp: classify_def split: if_splits option.splits)
    show ?thesis
    proof (cases "js_toString P price")
      case (Inl e)
      with assms c f h3 have "chatHistory (handleQuery P E query st) = chatHistory st @ [?u]"
        by (simp add: handleQuery_def Let_def chatHistory_simps)
      then show ?thesis by (simp add: agent_entries_def)
    next
      case (Inr p)
      with assms c f h3 have "chatHistory (handleQuery P E query st) =
        chatHistory st @ [?u,
          \<lparr>text_of = js ''The current price of '' @ symbol_text P s @ js '' is $'' @ p,
           sender = js ''ai''\<rparr>]"
        by (simp add: handleQuery_def Let_def chatHistory_simps)
      then show ?thesis by (simp add: agent_entries_def)
    qed
  next
    case (GenericQuery q)
    with assms have c: "toLowerCase query \<noteq> js ''connect''"
      "\<not> str_includes (toLowerCase query) (js ''price of'')"
      by (auto simp: classify_def split: if_splits option.splits)
    with assms have "chatHistory (handleQuery P E query st) =
        chatHistory (handleOllamaQuery P E query ?st2)"
      by (simp add: handleQuery_def Let_def chatHistory_simps)
    moreover obtain agents where
      "chatHistory (handleOllamaQuery P E query ?st2) = chatHistory ?st2 @ agents"
      "length agents \<le> 1" "agent_entries agents = agents"
      using handleOllamaQuery_agents by blast
    ultimately show ?thesis using h2 by simp
  qed
qed

text \<open>
  C2. The claim: every submitted query, also one that is empty after trimming, appends
  exactly one User entry at once, and at most one Agent entry after it. \<open>handleQuery\<close>
  returns on a query that is empty after trimming before it touches the log. With that
  case set apart the claim holds: a query that is empty after trimming leaves the log as
  it was; every other query appends one User entry carrying the query, ahead of the
  \<open>connect\<close>, price and generic tests, and then at most one Agent entry.
\<close>

theorem log_after_submit:
  "if trim query = [] then chatHistory (handleQuery P E query st) = chatHistory st
   else (\<exists>agents. chatHistory (handleQuery P E query st) =
            chatHistory st @ \<lparr>text_of = query, sender = js ''user''\<rparr> # agents
          \<and> length agents \<le> 1 \<and> agent_entries agents = agents)"
  using handleQuery_empty handleQuery_nonempty by simp

text \<open>The query \<open>hi\<close>, with no collaborator answering.\<close>

theorem log_after_submit_witness:
  "trim (js ''hi'') \<noteq> []
   \<and> (\<exists>agents. chatHistory (handleQuery example_platform offline (js ''hi'') initial_app) =
          chatHistory initial_app @ \<lparr>text_of = js ''hi'', sender = js ''user''\<rparr> # agents
        \<and> length agents \<le> 1 \<and> agent_entries agents = agents)"
proof -
  have t: "trim (js ''hi'') \<noteq> []"
    by (simp add: trim_def is_space_def)
  with log_after_submit[of "js ''hi''" example_platform offline initial_app]
  show ?thesis by (simp only: if_False simp_thms)
qed

text \<open>
  The claim as stated fails on a query of two spaces: it is rejected with
  \<open>Please enter a query\<close>, and the log holds no User entry after it.
\<close>

theorem empty_query_not_logged:
  "user_entries (chatHistory (handleQuery example_platform offline (js ''  '') initial_app)) = []
   \<and> response (handleQuery example_platform offline (js ''  '') initial_app) =
       js ''Please enter a query''"
  by (simp add: handleQuery_def Let_def trim_def is_space_def initial_app_def user_entries_def
      setResponse_def setLoading_def)

section \<open>The connect command\<close>

lemma connect_not_blank: "toLowerCase query = js ''connect'' \<Longrightarrow> trim query \<noteq> []"
proof -
  assume h: "toLowerCase query = js ''connect''"
  then obtain c cs where q: "query = c # cs"
    by (cases query) (auto simp: toLowerCase_def)
  with h have "lowerUnit c = 99"
    by (simp add: toLowerCase_def)
  then have "\<not> is_space c"
    by (auto simp: lowerUnit_def is_space_def split: if_splits)
  with q have "dropWhile is_space query = query" by simp
  moreover have "rev (dropWhile is_space (rev query)) \<noteq> []"
  proof
    assume "rev (dropWhile is_space (rev query)) = []"
    then have "dropWhile is_space (rev query) = []" by simp
    then have "\<forall>x \<in> set (rev query). is_space x"
      by (simp add: dropWhile_eq_Nil_conv)
    with q \<open>\<not> is_space c\<close> show False by simp
  qed
  ultimately show ?thesis by (simp add: trim_def)
qed

lemma response_authenticateUser: "response (authenticateUser E st) = response st"
  by (simp add: authenticateUser_def response_simps split: option.splits sum.splits)

text \<open>
  C3. The claim: a Connect query whose wallet handling succeeds (accounts obtained and
  authentication completes) appends an Agent confirmation to the log, and a failing one
  appends none and surfaces an error. \<open>handleConnect\<close> never writes \<open>chatHistory\<close>.
  What holds: a Connect query appends its User entry and no Agent entry, whatever the
  wallet does. When an account is obtained and the authentication completes, the
  signature is stored and the confirmation is shown through \<open>response\<close> only; when the
  provider is absent, grants no account or rejects the request, an error text is shown
  through \<open>response\<close>.
\<close>

theorem connect_appends_no_agent_entry:
  assumes "toLowerCase query = js ''connect''"
  shows "chatHistory (handleQuery P E query st) =
           chatHistory st @ [\<lparr>text_of = query, sender = js ''user''\<rparr>]
       \<and> (ethereum E = Some (Inr (connectedAddress # others))
            \<and> checkAndSignAuthMessage E = Inr authSig \<longrightarrow>
            response (handleQuery P E query st) =
              js ''Connected to wallet: '' @ connectedAddress
                @ js '' and authenticated successfully!''
          \<and> userAuthSig (handleQuery P E query st) = Some authSig)
       \<and> (ethereum E = None \<longrightarrow>
            response (handleQuery P E query st) = js ''No Ethereum provider detected.'')
       \<and> (ethereum E = Some (Inr []) \<longrightarrow>
            response (handleQuery P E query st) = js ''No wallet connected'')
       \<and> (ethereum E = Some (Inl e) \<longrightarrow>
            response (handleQuery P E query st) =
              js ''Failed to connect wallet or authenticate.'')"
proof -
  from assms have t: "trim query \<noteq> []" by (rule connect_not_blank)
  from assms t have eq: "handleQuery P E query st =
      setLoading False (handleConnect E
        (appendChat \<lparr>text_of = query, sender = js ''user''\<rparr>
           (setResponse [] (setLoading True st))))"
    by (simp add: handleQuery_def Let_def)
  have c: "chatHistory (handleQuery P E query st) =
      chatHistory st @ [\<lparr>text_of = query, sender = js ''user''\<rparr>]"
    unfolding eq by (simp add: chatHistory_simps chatHistory_handleConnect)
  have ok: "response (setLoading False (handleConnect E s)) =
        js ''Connected to wallet: '' @ connectedAddress
          @ js '' and authenticated successfully!''
      \<and> userAuthSig (setLoading False (handleConnect E s)) = Some authSig"
    if "ethereum E = Some (Inr (connectedAddress # others))"
      and "checkAndSignAuthMessage E = Inr authSig" for s
    using that
    by (simp add: handleConnect_def authenticateUser_def Let_def setResponse_def
        setLoading_def console_log_def)
  have none: "response (setLoading False (handleConnect E s)) =
        js ''No Ethereum provider detected.''"
    if "ethereum E = None" for s
    using that by (simp add: handleConnect_def Let_def response_simps)
  have empty: "response (setLoading False (handleConnect E s)) = js ''No wallet connected''"
    if "ethereum E = Some (Inr [])" for s
    using that by (simp add: handleConnect_def Let_def response_simps)
  have rej: "response (setLoading False (handleConnect E s)) =
        js ''Failed to connect wallet or authenticate.''"
    if "ethereum E = Some (Inl e)" for s
    using that by (simp add: handleConnect_def Let_def response_simps)
  show ?thesis
    unfolding eq using c[unfolded eq] ok none empty rej by blast
qed

text \<open>
  The query \<open>Connect\<close> with a wallet that grants the account \<open>0xA1\<close> and signs, and
  with no provider at all.
\<close>

theorem connect_appends_no_agent_entry_witness:
  "toLowerCase (js ''Connect'') = js ''connect''
   \<and> ethereum (wallet (js ''0xA1'')) = Some (Inr [js ''0xA1''])
   \<and> checkAndSignAuthMessage (wallet (js ''0xA1'')) = Inr (js ''sig'')
   \<and> chatHistory (handleQuery example_platform (wallet (js ''0xA1'')) (js ''Connect'') initial_app) =
       [\<lparr>text_of = js ''Connect'', sender = js ''user''\<rparr>]
   \<and> response (handleQuery example_platform (wallet (js ''0xA1'')) (js ''Connect'') initial_app) =
       js ''Connected to wallet: 0xA1 and authenticated successfully!''
   \<and> userAuthSig (handleQuery example_platform (wallet (js ''0xA1'')) (js ''Connect'') initial_app) =
       Some (js ''sig'')
   \<and> ethereum offline = None
   \<and> response (handleQuery example_platform offline (js ''Connect'') initial_app) =
       js ''No Ethereum provider detected.''"
proof -
  have h: "toLowerCase (js ''Connect'') = js ''connect''"
    by (simp add: toLowerCase_def lowerUnit_def)
  have w: "ethereum (wallet (js ''0xA1'')) = Some (Inr (js ''0xA1'' # []))"
    "checkAndSignAuthMessage (wallet (js ''0xA1'')) = Inr (js ''sig'')"
    by (simp_all add: wallet_def offline_def)
  have n: "ethereum offline = None"
    by (simp add: offline_def)
  have i: "chatHistory initial_app = []"
    by (simp add: initial_app_def)
  note t1 = connect_appends_no_agent_entry[OF h, where P = example_platform
      and E = "wallet (js ''0xA1'')" and st = initial_app and connectedAddress = "js ''0xA1''"
      and others = "[]" and authSig = "js ''sig''"]
  note t2 = connect_appends_no_agent_entry[OF h, where P = example_platform
      and E = offline and st = initial_app]
  from t1 w have a:
    "chatHistory (handleQuery example_platform (wallet (js ''0xA1'')) (js ''Connect'')
        initial_app) = chatHistory initial_app @ [\<lparr>text_of = js ''Connect'', sender = js ''user''\<rparr>]"
    "response (handleQuery example_platform (wallet (js ''0xA1'')) (js ''Connect'') initial_app) =
       js ''Connected to wallet: '' @ js ''0xA1'' @ js '' and authenticated successfully!''"
    "userAuthSig (handleQuery example_platform (wallet (js ''0xA1'')) (js ''Connect'')
        initial_app) = Some (js ''sig'')"
    by blast+
  from t2 n have b:
    "response (handleQuery example_platform offline (js ''Connect'') initial_app) =
       js ''No Ethereum provider detected.''"
    by blast
  from h w n a b i show ?thesis by simp
qed

text \<open>
  The claim as stated fails when the wallet grants an account and signs: the signature
  is stored, and the log holds no Agent entry.
\<close>

theorem connect_success_leaves_log_without_agent:
  "agent_entries (chatHistory
      (handleQuery example_platform (wallet (js ''0xA1'')) (js ''connect'') initial_app)) = []
   \<and> userAuthSig
      (handleQuery example_platform (wallet (js ''0xA1'')) (js ''connect'') initial_app)
      = Some (js ''sig'')"
  by (simp add: handleQuery_def Let_def handleConnect_def authenticateUser_def wallet_def
      offline_def initial_app_def agent_entries_def setResponse_def setLoading_def
      appendChat_def console_log_def trim_def is_space_def toLowerCase_def lowerUnit_def)

section \<open>Price queries\<close>

lemma response_fetchCryptoPrice:
  "response (snd (fetchCryptoPrice P E symbol st)) = response st"
  by (simp add: fetchCryptoPrice_def response_simps split: sum.splits)

lemma handleQuery_price:
  assumes "classify query = PriceQuery s"
    and "fst (fetchCryptoPrice P E s
           (appendChat \<lparr>text_of = query, sender = js ''user''\<rparr>
              (setResponse [] (setLoading True st)))) = price"
    and "js_toString P price = Inr p"
  shows "chatHistory (handleQuery P E query st) =
           chatHistory st @
             [\<lparr>text_of = query, sender = js ''user''\<rparr>,
              \<lparr>text_of = js ''The current price of '' @ symbol_text P s @ js '' is $'' @ p,
               sender = js ''ai''\<rparr>]
       \<and> response (handleQuery P E query st) =
           js ''The current price of '' @ symbol_text P s @ js '' is $'' @ p"
proof -
  let ?st2 = "appendChat \<lparr>text_of = query, sender = js ''user''\<rparr>
                (setResponse [] (setLoading True st))"
  from assms(1) have c: "trim query \<noteq> []" "toLowerCase query \<noteq> js ''connect''"
      "str_includes (toLowerCase query) (js ''price of'')"
      "extractCryptoSymbol query = Some s" "symbol_truthy s"
    by (auto simp: classify_def split: if_splits option.splits)
  obtain st3 where f: "fetchCryptoPrice P E s ?st2 = (price, st3)"
    using assms(2) by (cases "fetchCryptoPrice P E s ?st2") auto
  have h3: "chatHistory st3 = chatHistory st @ [\<lparr>text_of = query, sender = js ''user''\<rparr>]"
    using chatHistory_fetchCryptoPrice[of P E s ?st2] f by (simp add: chatHistory_simps)
  from c f h3 assms(3) show ?thesis
    by (simp add: handleQuery_def Let_def chatHistory_simps response_simps)
qed

lemma handleQuery_price_throws:
  assumes "classify query = PriceQuery s"
    and "fst (fetchCryptoPrice P E s
           (appendChat \<lparr>text_of = query, sender = js ''user''\<rparr>
              (setResponse [] (setLoading True st)))) = price"
    and "js_toString P price = Inl x"
  shows "chatHistory (handleQuery P E query st) =
           chatHistory st @ [\<lparr>text_of = query, sender = js ''user''\<rparr>]
       \<and> response (handleQuery P E query st) = js ''Failed to get a response''"
proof -
  let ?st2 = "appendChat \<lparr>text_of = query, sender = js ''user''\<rparr>
                (setResponse [] (setLoading True st))"
  from assms(1) have c: "trim query \<noteq> []" "toLowerCase query \<noteq> js ''connect''"
      "str_includes (toLowerCase query) (js ''price of'')"
      "extractCryptoSymbol query = Some s" "symbol_truthy s"
    by (auto simp: classify_def split: if_splits option.splits)
  obtain st3 where f: "fetchCryptoPrice P E s ?st2 = (price, st3)"
    using assms(2) by (cases "fetchCryptoPrice P E s ?st2") auto
  have h3: "chatHistory st3 = chatHistory st @ [\<lparr>text_of = query, sender = js ''user''\<rparr>]"
    using chatHistory_fetchCryptoPrice[of P E s ?st2] f by (simp add: chatHistory_simps)
  from c f h3 assms(3) show ?thesis
    by (simp add: handleQuery_def Let_def chatHistory_simps response_simps)
qed

text \<open>
  \<open>fetchCryptoPrice\<close> answers the quoted price when the response carries one, and
  \<open>'Price not found'\<close> in every other case of a response.
\<close>

lemma price_of_data_quoted:
  "price_of_data P data key =
     Inr (case quoted_price P data key of
            Some usd \<Rightarrow> usd
          | None \<Rightarrow> JStr (js ''Price not found''))"
proof (cases "js_get data key")
  case (Inl e)
  then have "data = JNull" by (cases data) simp_all
  then show ?thesis
    by (simp add: price_of_data_def quoted_price_def)
next
  case (Inr m)
  show ?thesis
  proof (cases m)
    case None
    with Inr show ?thesis
      by (simp add: price_of_data_def quoted_price_def)
  next
    case (Some entry)
    show ?thesis
    proof (cases "js_get entry (js ''usd'')")
      case l: (Inl e)
      then have "entry = JNull" by (cases entry) simp_all
      with Inr Some show ?thesis
        by (simp add: price_of_data_def quoted_price_def)
    next
      case r: (Inr u)
      have ft: "\<not> truthy P v \<Longrightarrow> js_get v k = Inl TypeError \<or> js_get v k = Inr None" for v k
        by (cases v) simp_all
      from Inr Some have td: "truthy P data"
        using ft[of data key] by auto
      show ?thesis
      proof (cases u)
        case None
        with Inr Some r show ?thesis
          by (simp add: price_of_data_def quoted_price_def)
      next
        case su: (Some usd)
        from r su have te: "truthy P entry"
          using ft[of entry "js ''usd''"] by auto
        from Inr Some r su td te show ?thesis
          by (simp add: price_of_data_def quoted_price_def)
      qed
    qed
  qed
qed

lemma fetchCryptoPrice_answer:
  "fst (fetchCryptoPrice P E s st) =
     (case axios_get E (price_url P s) of
        Inl e \<Rightarrow> JStr (js ''Error fetching price'')
      | Inr data \<Rightarrow>
          (case quoted_price P data (symbol_text P s) of
             Some usd \<Rightarrow> usd
           | None \<Rightarrow> JStr (js ''Price not found'')))"
  by (simp add: fetchCryptoPrice_def price_of_data_quoted split: sum.splits option.splits)

text \<open>
  C1. The claim: when the price lookup fails, the dispatcher surfaces an error and
  appends no Agent entry; only a successful lookup appends one. \<open>fetchCryptoPrice\<close>
  answers a failure with a text, and \<open>handleQuery\<close> puts whatever it answers into the
  message. What holds, for every price query: when the price service rejects the
  request, one Agent entry ending in \<open>Error fetching price\<close> follows the User entry;
  when the response carries no price for the symbol, one ending in \<open>Price not found\<close>;
  in both cases \<open>response\<close> is set to the same text. When the response carries a price,
  one Agent entry ending in the text of that price follows the User entry and
  \<open>response\<close> is set to it; a price that has no text (an object with a \<open>toString\<close>
  member of its own) ends in the \<open>catch\<close> of \<open>handleQuery\<close> instead, with
  \<open>Failed to get a response\<close> and no Agent entry.
\<close>

theorem price_lookup_always_logged:
  assumes "classify query = PriceQuery s"
  shows "(axios_get E (price_url P s) = Inl e \<longrightarrow>
            chatHistory (handleQuery P E query st) =
              chatHistory st @
                [\<lparr>text_of = query, sender = js ''user''\<rparr>,
                 \<lparr>text_of = js ''The current price of '' @ symbol_text P s
                     @ js '' is $Error fetching price'',
                  sender = js ''ai''\<rparr>]
          \<and> response (handleQuery P E query st) =
              js ''The current price of '' @ symbol_text P s @ js '' is $Error fetching price'')
       \<and> (axios_get E (price_url P s) = Inr data
            \<and> quoted_price P data (symbol_text P s) = None \<longrightarrow>
            chatHistory (handleQuery P E query st) =
              chatHistory st @
                [\<lparr>text_of = query, sender = js ''user''\<rparr>,
                 \<lparr>text_of = js ''The current price of '' @ symbol_text P s
                     @ js '' is $Price not found'',
                  sender = js ''ai''\<rparr>]
          \<and> response (handleQuery P E query st) =
              js ''The current price of '' @ symbol_text P s @ js '' is $Price not found'')
       \<and> (axios_get E (price_url P s) = Inr data
            \<and> quoted_price P data (symbol_text P s) = Some usd
            \<and> js_toString P usd = Inr p \<longrightarrow>
            chatHistory (handleQuery P E query st) =
              chatHistory st @
                [\<lparr>text_of = query, sender = js ''user''\<rparr>,
                 \<lparr>text_of = js ''The current price of '' @ symbol_text P s @ js '' is $'' @ p,
                  sender = js ''ai''\<rparr>]
          \<and> response (handleQuery P E query st) =
              js ''The current price of '' @ symbol_text P s @ js '' is $'' @ p)
       \<and> (axios_get E (price_url P s) = Inr data
            \<and> quoted_price P data (symbol_text P s) = Some usd
            \<and> js_toString P usd = Inl x \<longrightarrow>
            chatHistory (handleQuery P E query st) =
              chatHistory st @ [\<lparr>text_of = query, sender = js ''user''\<rparr>]
          \<and> response (handleQuery P E query st) = js ''Failed to get a response'')"
proof -
  let ?st2 = "appendChat \<lparr>text_of = query, sender = js ''user''\<rparr>
                (setResponse [] (setLoading True st))"
  have err: "chatHistory (handleQuery P E query st) =
              chatHistory st @
                [\<lparr>text_of = query, sender = js ''user''\<rparr>,
                 \<lparr>text_of = js ''The current price of '' @ symbol_text P s
                     @ js '' is $Error fetching price'',
                  sender = js ''ai''\<rparr>]
          \<and> response (handleQuery P E query st) =
              js ''The current price of '' @ symbol_text P s @ js '' is $Error fetching price''"
    if "axios_get E (price_url P s) = Inl e"
  proof -
    from that have "fst (fetchCryptoPrice P E s ?st2) = JStr (js ''Error fetching price'')"
      by (simp add: fetchCryptoPrice_answer)
    from handleQuery_price[OF assms this, of "js ''Error fetching price''"]
    show ?thesis by simp
  qed
  have nf: "chatHistory (handleQuery P E query st) =
              chatHistory st @
                [\<lparr>text_of = query, sender = js ''user''\<rparr>,
                 \<lparr>text_of = js ''The current price of '' @ symbol_text P s
                     @ js '' is $Price not found'',
                  sender = js ''ai''\<rparr>]
          \<and> response (handleQuery P E query st) =
              js ''The current price of '' @ symbol_text P s @ js '' is $Price not found''"
    if "axios_get E (price_url P s) = Inr data"
      and "quoted_price P data (symbol_text P s) = None"
  proof -
    from that have "fst (fetchCryptoPrice P E s ?st2) = JStr (js ''Price not found'')"
      by (simp add: fetchCryptoPrice_answer)
    from handleQuery_price[OF assms this, of "js ''Price not found''"]
    show ?thesis by simp
  qed
  have ok: "chatHistory (handleQuery P E query st) =
              chatHistory st @
                [\<lparr>text_of = query, sender = js ''user''\<rparr>,
                 \<lparr>text_of = js ''The current price of '' @ symbol_text P s @ js '' is $'' @ p,
                  sender = js ''ai''\<rparr>]
          \<and> response (handleQuery P E query st) =
              js ''The current price of '' @ symbol_text P s @ js '' is $'' @ p"
    if "axios_get E (price_url P s) = Inr data"
      and "quoted_price P data (symbol_text P s) = Some usd"
      and "js_toString P usd = Inr p"
  proof -
    from that have "fst (fetchCryptoPrice P E s ?st2) = usd"
      by (simp add: fetchCryptoPrice_answer)
    from handleQuery_price[OF assms this that(3)]
    show ?thesis .
  qed
  have thr: "chatHistory (handleQuery P E query st) =
              chatHistory st @ [\<lparr>text_of = query, sender = js ''user''\<rparr>]
          \<and> response (handleQuery P E query st) = js ''Failed to get a response''"
    if "axios_get E (price_url P s) = Inr data"
      and "quoted_price P data (symbol_text P s) = Some usd"
      and "js_toString P usd = Inl x"
  proof -
    from that have "fst (fetchCryptoPrice P E s ?st2) = usd"
      by (simp add: fetchCryptoPrice_answer)
    from handleQuery_price_throws[OF assms this that(3)]
    show ?thesis .
  qed
  from err nf ok thr show ?thesis by blast
qed

lemma classify_price_of_btc: "classify (js ''price of btc'') = PriceQuery (Sym (js ''bitcoin''))"
  by (simp add: classify_def trim_def is_space_def toLowerCase_def lowerUnit_def
      extractCryptoSymbol_def resolve_def mappings_get_def cryptoSymbolMappings_def is_word_def)

text \<open>
  The query \<open>price of btc\<close>: while the price service rejects every request; when it
  answers \<open>{"bitcoin":{}}\<close>, an entry without a price; when it answers
  \<open>{"bitcoin":{"usd":50000}}\<close>; and when it answers \<open>{"bitcoin":{"usd":{"toString":1}}}\<close>.
\<close>

theorem price_lookup_always_logged_witness:
  "classify (js ''price of btc'') = PriceQuery (Sym (js ''bitcoin''))
   \<and> axios_get offline (price_url example_platform (Sym (js ''bitcoin''))) = Inl Rejected
   \<and> chatHistory (handleQuery example_platform offline (js ''price of btc'') initial_app) =
       [\<lparr>text_of = js ''price of btc'', sender = js ''user''\<rparr>,
        \<lparr>text_of = js ''The current price of bitcoin is $Error fetching price'',
         sender = js ''ai''\<rparr>]
   \<and> quoted_price example_platform (JObj [(js ''bitcoin'', JObj [])]) (js ''bitcoin'') = None
   \<and> chatHistory (handleQuery example_platform (pricing (JObj [(js ''bitcoin'', JObj [])]))
         (js ''price of btc'') initial_app) =
       [\<lparr>text_of = js ''price of btc'', sender = js ''user''\<rparr>,
        \<lparr>text_of = js ''The current price of bitcoin is $Price not found'',
         sender = js ''ai''\<rparr>]
   \<and> quoted_price example_platform
         (JObj [(js ''bitcoin'', JObj [(js ''usd'', JNum (js ''50000''))])]) (js ''bitcoin'') =
       Some (JNum (js ''50000''))
   \<and> chatHistory (handleQuery example_platform
         (pricing (JObj [(js ''bitcoin'', JObj [(js ''usd'', JNum (js ''50000''))])]))
         (js ''price of btc'') initial_app) =
       [\<lparr>text_of = js ''price of btc'', sender = js ''user''\<rparr>,
        \<lparr>text_of = js ''The current price of bitcoin is $50000'', sender = js ''ai''\<rparr>]
   \<and> js_toString example_platform (JObj [(js ''toString'', JNum (js ''1''))]) = Inl TypeError
   \<and> chatHistory (handleQuery example_platform
         (pricing (JObj [(js ''bitcoin'',
            JObj [(js ''usd'', JObj [(js ''toString'', JNum (js ''1''))])])]))
         (js ''price of btc'') initial_app) =
       [\<lparr>text_of = js ''price of btc'', sender = js ''user''\<rparr>]
   \<and> response (handleQuery example_platform
         (pricing (JObj [(js ''bitcoin'',
            JObj [(js ''usd'', JObj [(js ''toString'', JNum (js ''1''))])])]))
         (js ''price of btc'') initial_app) = js ''Failed to get a response''"
proof -
  let ?s = "Sym (js ''bitcoin'')"
  let ?d1 = "JObj [(js ''bitcoin'', JObj [])]"
  let ?d2 = "JObj [(js ''bitcoin'', JObj [(js ''usd'', JNum (js ''50000''))])]"
  let ?bad = "JObj [(js ''toString'', JNum (js ''1''))]"
  let ?d3 = "JObj [(js ''bitcoin'', JObj [(js ''usd'', ?bad)])]"
  have i: "chatHistory initial_app = []"
    by (simp add: initial_app_def)
  have k: "symbol_text example_platform ?s = js ''bitcoin''"
    by simp
  have a0: "axios_get offline (price_url example_platform ?s) = Inl Rejected"
    by (simp add: offline_def)
  have a1: "axios_get (pricing ?d1) (price_url example_platform ?s) = Inr ?d1"
    and a2: "axios_get (pricing ?d2) (price_url example_platform ?s) = Inr ?d2"
    and a3: "axios_get (pricing ?d3) (price_url example_platform ?s) = Inr ?d3"
    by (simp_all add: pricing_def offline_def)
  have q1: "quoted_price example_platform ?d1 (symbol_text example_platform ?s) = None"
    and q2: "quoted_price example_platform ?d2 (symbol_text example_platform ?s) =
      Some (JNum (js ''50000''))"
    and q3: "quoted_price example_platform ?d3 (symbol_text example_platform ?s) = Some ?bad"
    by (simp_all add: quoted_price_def example_platform_def)
  have s2: "js_toString example_platform (JNum (js ''50000'')) = Inr (js ''50000'')"
    by (simp add: example_platform_def)
  have s3: "js_toString example_platform ?bad = Inl TypeError"
    by simp
  note t = price_lookup_always_logged[OF classify_price_of_btc,
      where P = example_platform and st = initial_app]
  from t[where E = offline and e = Rejected] a0 have r0:
    "chatHistory (handleQuery example_platform offline (js ''price of btc'') initial_app) =
       chatHistory initial_app @
       [\<lparr>text_of = js ''price of btc'', sender = js ''user''\<rparr>,
        \<lparr>text_of = js ''The current price of '' @ symbol_text example_platform ?s
            @ js '' is $Error fetching price'', sender = js ''ai''\<rparr>]"
    by blast
  from t[where E = "pricing ?d1" and data = ?d1] a1 q1 have r1:
    "chatHistory (handleQuery example_platform (pricing ?d1) (js ''price of btc'') initial_app) =
       chatHistory initial_app @
       [\<lparr>text_of = js ''price of btc'', sender = js ''user''\<rparr>,
        \<lparr>text_of = js ''The current price of '' @ symbol_text example_platform ?s
            @ js '' is $Price not found'', sender = js ''ai''\<rparr>]"
    by blast
  from t[where E = "pricing ?d2" and data = ?d2 and usd = "JNum (js ''50000'')"
      and p = "js ''50000''"] a2 q2 s2 have r2:
    "chatHistory (handleQuery example_platform (pricing ?d2) (js ''price of btc'') initial_app) =
       chatHistory initial_app @
       [\<lparr>text_of = js ''price of btc'', sender = js ''user''\<rparr>,
        \<lparr>text_of = js ''The current price of '' @ symbol_text example_platform ?s
            @ js '' is $'' @ js ''50000'', sender = js ''ai''\<rparr>]"
    by blast
  from t[where E = "pricing ?d3" and data = ?d3 and usd = ?bad and x = TypeError] a3 q3 s3
  have r3:
    "chatHistory (handleQuery example_platform (pricing ?d3) (js ''price of btc'') initial_app) =
       chatHistory initial_app @ [\<lparr>text_of = js ''price of btc'', sender = js ''user''\<rparr>]"
    "response (handleQuery example_platform (pricing ?d3) (js ''price of btc'') initial_app) =
       js ''Failed to get a response''"
    by blast+
  from classify_price_of_btc a0 q1 q2 s3 r0 r1 r2 r3 i k show ?thesis
    by simp
qed

text \<open>
  The claim as stated fails on that input: the failed lookup leaves an Agent entry in
  the log.
\<close>

theorem failed_price_lookup_is_logged:
  "agent_entries (chatHistory
      (handleQuery example_platform offline (js ''price of btc'') initial_app)) =
     [\<lparr>text_of = js ''The current price of bitcoin is $Error fetching price'',
       sender = js ''ai''\<rparr>]"
proof -
  have "fst (fetchCryptoPrice example_platform offline (Sym (js ''bitcoin''))
           (appendChat \<lparr>text_of = js ''price of btc'', sender = js ''user''\<rparr>
              (setResponse [] (setLoading True initial_app)))) = JStr (js ''Error fetching price'')"
    by (simp add: fetchCryptoPrice_def offline_def)
  from handleQuery_price[OF classify_price_of_btc this, of "js ''Error fetching price''"]
  show ?thesis
    by (simp add: agent_entries_def initial_app_def)
qed

section \<open>Classification\<close>

text \<open>\<open>handleQuery\<close> does what the branch named by \<open>classify\<close> does.\<close>

lemma handleQuery_classify:
  "handleQuery P E query st =
     (let st1 = setResponse [] (setLoading True st);
          st2 = appendChat \<lparr>text_of = query, sender = js ''user''\<rparr> st1
      in case classify query of
           Invalid m \<Rightarrow>
             setLoading False (setLoading False
               (setResponse m (if trim query = [] then st1 else st2)))
         | Connect \<Rightarrow> setLoading False (handleConnect E st2)
         | PriceQuery s \<Rightarrow>
             (case fetchCryptoPrice P E s st2 of
                (cryptoPrice, st3) \<Rightarrow>
                  (case js_toString P cryptoPrice of
                     Inl e \<Rightarrow>
                       setLoading False (setResponse (js ''Failed to get a response'')
                         (console_log ErrorInAIQuery st3))
                   | Inr p \<Rightarrow>
                       setLoading False
                         (appendChat
                            \<lparr>text_of = js ''The current price of '' @ symbol_text P s
                                 @ js '' is $'' @ p,
                             sender = js ''ai''\<rparr>
                            (setResponse
                               (js ''The current price of '' @ symbol_text P s
                                  @ js '' is $'' @ p) st3))))
         | GenericQuery q \<Rightarrow> setLoading False (handleOllamaQuery P E q st2))"
  by (simp add: handleQuery_def classify_def Let_def split: option.splits prod.splits sum.splits)

text \<open>
  C5. The claim: every non-empty query that matches neither \<open>connect\<close> nor the pattern
  \<open>price of X\<close> is classified as a generic query, never as invalid. \<open>handleQuery\<close>
  enters its price branch on the phrase \<open>price of\<close> alone and rejects the query there
  when no name follows the phrase. What holds: a query that is not empty after trimming,
  is not \<open>connect\<close> in any case of its letters and does not contain the phrase
  \<open>price of\<close> in any case is classified as a generic query carrying the query text
  unchanged, and \<open>handleQuery\<close> logs it and hands that text to \<open>handleOllamaQuery\<close>; a
  query that contains the phrase with no name after it is classified as invalid.
\<close>

theorem other_queries_are_generic:
  "(trim query \<noteq> [] \<and> toLowerCase query \<noteq> js ''connect''
      \<and> \<not> str_includes (toLowerCase query) (js ''price of'') \<longrightarrow>
      classify query = GenericQuery query
    \<and> handleQuery P E query st =
        setLoading False
          (handleOllamaQuery P E query
             (appendChat \<lparr>text_of = query, sender = js ''user''\<rparr>
                (setResponse [] (setLoading True st)))))
   \<and> (trim query \<noteq> [] \<and> toLowerCase query \<noteq> js ''connect''
      \<and> str_includes (toLowerCase query) (js ''price of'')
      \<and> match_price_of query = None \<longrightarrow>
      classify query = Invalid (js ''Please provide a valid cryptocurrency name or symbol.''))"
  by (simp add: handleQuery_def classify_def extractCryptoSymbol_def Let_def)

text \<open>The query \<open>What is a wallet?\<close>.\<close>

theorem other_queries_are_generic_witness:
  "trim (js ''What is a wallet?'') \<noteq> []
   \<and> toLowerCase (js ''What is a wallet?'') \<noteq> js ''connect''
   \<and> \<not> str_includes (toLowerCase (js ''What is a wallet?'')) (js ''price of'')
   \<and> classify (js ''What is a wallet?'') = GenericQuery (js ''What is a wallet?'')
   \<and> handleQuery example_platform offline (js ''What is a wallet?'') initial_app =
       setLoading False
         (handleOllamaQuery example_platform offline (js ''What is a wallet?'')
            (appendChat \<lparr>text_of = js ''What is a wallet?'', sender = js ''user''\<rparr>
               (setResponse [] (setLoading True initial_app))))"
proof -
  have a: "trim (js ''What is a wallet?'') \<noteq> []"
    by (simp add: trim_def is_space_def)
  have b: "toLowerCase (js ''What is a wallet?'') \<noteq> js ''connect''"
    by (simp add: toLowerCase_def)
  have c: "\<not> str_includes (toLowerCase (js ''What is a wallet?'')) (js ''price of'')"
    by (simp add: toLowerCase_def lowerUnit_def)
  from other_queries_are_generic[of "js ''What is a wallet?''" example_platform offline
      initial_app] a b c
  show ?thesis by blast
qed

text \<open>
  The claim as stated fails on the query \<open>price of\<close>: it is not empty, is not
  \<open>connect\<close> and has no match of \<open>price of X\<close>, and it is classified as invalid; with an
  inference service ready to answer, the log holds the User entry alone.
\<close>

theorem price_of_without_name_is_invalid:
  \<open>trim (js ''price of'') \<noteq> []
   \<and> toLowerCase (js ''price of'') \<noteq> js ''connect''
   \<and> match_price_of (js ''price of'') = None
   \<and> classify (js ''price of'') =
       Invalid (js ''Please provide a valid cryptocurrency name or symbol.'')
   \<and> chatHistory (handleQuery example_platform (streaming [js ''{"response":"ok"}''])
         (js ''price of'') initial_app) =
       [\<lparr>text_of = js ''price of'', sender = js ''user''\<rparr>]
   \<and> response (handleQuery example_platform (streaming [js ''{"response":"ok"}''])
         (js ''price of'') initial_app) =
       js ''Please provide a valid cryptocurrency name or symbol.''\<close>
  by (simp add: handleQuery_def classify_def extractCryptoSymbol_def Let_def trim_def
      is_space_def toLowerCase_def lowerUnit_def is_word_def initial_app_def
      setResponse_def setLoading_def appendChat_def)

section \<open>The streaming assembler\<close>

text \<open>
  The chunks of the examples are ASCII texts; the bytes of such a text are the numbers
  of its characters, so \<open>js\<close> writes them too.
\<close>

lemma decode_not_json: "TextDecoder_decode (js ''not-json'') = js ''not-json''"
  by (simp add: TextDecoder_decode_def utf8_init_def utf8_lead_def utf16_units_def)

lemma parse_not_json: "JSON_parse (js ''not-json'') = Inl SyntaxError"
  by (simp add: JSON_parse_def lex_number_def)

lemma decode_ok: \<open>TextDecoder_decode (js ''{"response":"ok"}'') = js ''{"response":"ok"}''\<close>
  by (simp add: TextDecoder_decode_def utf8_init_def utf8_lead_def utf16_units_def)

lemma parse_ok:
  \<open>JSON_parse (js ''{"response":"ok"}'') = Inr (JObj [(js ''response'', JStr (js ''ok''))])\<close>
  by (simp add: JSON_parse_def)

lemma read_delta_not_json: "read_delta P (js ''not-json'') = []"
  using decode_not_json parse_not_json
  by (simp add: read_delta_def chunk_delta_def)

lemma read_delta_ok: \<open>read_delta P (js ''{"response":"ok"}'') = js ''ok''\<close>
  using decode_ok parse_ok
  by (simp add: read_delta_def chunk_delta_def)

lemma process_chunk_throw:
  "chunk_delta P (TextDecoder_decode v) = Inl e \<Longrightarrow>
   process_chunk P v (full, st) = (full, console_log ErrorParsingChunk st)"
  by (simp add: process_chunk_def)

text \<open>
  C6. A read whose text does not parse is skipped and the loop goes on: the turn leaves
  the accumulated text as it was and records the failure on the console, the final text
  is the one of the stream without that read, and a stream that ends still gets its
  Agent entry. For the two reads \<open>not-json\<close> and \<open>{"response":"ok"}\<close> the final text
  is \<open>ok\<close> and the entry is appended.
\<close>

theorem malformed_fragment_skipped:
  \<open>(JSON_parse (TextDecoder_decode v) = Inl e \<longrightarrow>
       process_chunk P v (full, st) = (full, console_log ErrorParsingChunk st)
     \<and> read_loop P (v # rest) (full, st) =
         read_loop P rest (full, console_log ErrorParsingChunk st)
     \<and> fst (read_loop P (before @ v # rest) (full, st)) =
         fst (read_loop P (before @ rest) (full, st))
     \<and> (fetch_generate E query = FetchResponse True (Some (before @ v # rest, Done)) \<longrightarrow>
          chatHistory (handleOllamaQuery P E query st) =
            chatHistory st @
              [\<lparr>text_of = concat (map (read_delta P) (before @ rest)), sender = js ''ai''\<rparr>]))
   \<and> fst (read_loop P [js ''not-json'', js ''{"response":"ok"}''] ([], st)) = js ''ok''
   \<and> (fetch_generate E query =
         FetchResponse True (Some ([js ''not-json'', js ''{"response":"ok"}''], Done)) \<longrightarrow>
        chatHistory (handleOllamaQuery P E query st) =
          chatHistory st @ [\<lparr>text_of = js ''ok'', sender = js ''ai''\<rparr>])\<close>
proof (intro conjI impI)
  assume h: "JSON_parse (TextDecoder_decode v) = Inl e"
  then have d: "chunk_delta P (TextDecoder_decode v) = Inl e"
    by (simp add: chunk_delta_def)
  then show p: "process_chunk P v (full, st) = (full, console_log ErrorParsingChunk st)"
    by (rule process_chunk_throw)
  then show "read_loop P (v # rest) (full, st) =
      read_loop P rest (full, console_log ErrorParsingChunk st)"
    by simp
  from d have r: "read_delta P v = []"
    by (simp add: read_delta_def)
  then show "fst (read_loop P (before @ v # rest) (full, st)) =
        fst (read_loop P (before @ rest) (full, st))"
    by (simp add: fst_read_loop)
  assume "fetch_generate E query = FetchResponse True (Some (before @ v # rest, Done))"
  with r show "chatHistory (handleOllamaQuery P E query st) =
      chatHistory st @
        [\<lparr>text_of = concat (map (read_delta P) (before @ rest)), sender = js ''ai''\<rparr>]"
    by (simp add: chatHistory_handleOllamaQuery)
next
  have c: \<open>concat (map (read_delta P) [js ''not-json'', js ''{"response":"ok"}'']) = js ''ok''\<close>
    using read_delta_not_json[of P] read_delta_ok[of P] by simp
  then show \<open>fst (read_loop P [js ''not-json'', js ''{"response":"ok"}''] ([], st)) = js ''ok''\<close>
    by (simp only: fst_read_loop append_Nil)
  assume \<open>fetch_generate E query =
      FetchResponse True (Some ([js ''not-json'', js ''{"response":"ok"}''], Done))\<close>
  then have \<open>chatHistory (handleOllamaQuery P E query st) =
      chatHistory st @
        [\<lparr>text_of = concat (map (read_delta P) [js ''not-json'', js ''{"response":"ok"}'']),
          sender = js ''ai''\<rparr>]\<close>
    by (simp add: chatHistory_handleOllamaQuery)
  then show \<open>chatHistory (handleOllamaQuery P E query st) =
      chatHistory st @ [\<lparr>text_of = js ''ok'', sender = js ''ai''\<rparr>]\<close>
    unfolding c .
qed

text \<open>The read \<open>not-json\<close> ahead of \<open>{"response":"ok"}\<close>.\<close>

theorem malformed_fragment_skipped_witness:
  \<open>JSON_parse (TextDecoder_decode (js ''not-json'')) = Inl SyntaxError
   \<and> fst (read_loop example_platform [js ''not-json'', js ''{"response":"ok"}'']
            ([], initial_app)) = js ''ok''
   \<and> chatHistory (handleOllamaQuery example_platform
         (streaming [js ''not-json'', js ''{"response":"ok"}'']) (js ''hi'') initial_app) =
       [\<lparr>text_of = js ''ok'', sender = js ''ai''\<rparr>]\<close>
proof -
  let ?bad = "js ''not-json''"
  let ?ok = \<open>js ''{"response":"ok"}''\<close>
  have h: "JSON_parse (TextDecoder_decode ?bad) = Inl SyntaxError"
    using decode_not_json parse_not_json by simp
  note t = malformed_fragment_skipped[where v = ?bad and e = SyntaxError
      and P = example_platform and full = "[]"
      and st = initial_app and before = "[]" and rest = "[?ok]"
      and E = "streaming [?bad, ?ok]" and query = "js ''hi''"]
  have f: "fetch_generate (streaming [?bad, ?ok]) (js ''hi'') =
      FetchResponse True (Some ([] @ ?bad # [?ok], Done))"
    by (simp add: streaming_def offline_def)
  have o: "concat (map (read_delta example_platform) ([] @ [?ok])) = js ''ok''"
    using read_delta_ok[of example_platform] by simp
  have "fst (read_loop example_platform ([] @ ?bad # [?ok]) ([], initial_app)) =
        fst (read_loop example_platform ([] @ [?ok]) ([], initial_app))"
    using t h by blast
  also have "\<dots> = js ''ok''"
    using o by (simp only: fst_read_loop append_Nil)
  finally have a: "fst (read_loop example_platform [?bad, ?ok] ([], initial_app)) = js ''ok''"
    by (simp only: append_Nil)
  have "chatHistory (handleOllamaQuery example_platform (streaming [?bad, ?ok]) (js ''hi'')
          initial_app) =
        chatHistory initial_app @
          [\<lparr>text_of = concat (map (read_delta example_platform) ([] @ [?ok])),
            sender = js ''ai''\<rparr>]"
    using t h f by blast
  then have b: "chatHistory (handleOllamaQuery example_platform (streaming [?bad, ?ok])
      (js ''hi'') initial_app) = [\<lparr>text_of = js ''ok'', sender = js ''ai''\<rparr>]"
    unfolding o by (simp add: initial_app_def)
  from h a b show ?thesis by blast
qed

lemmas decode_simps = TextDecoder_decode_def utf8_init_def utf8_lead_def utf16_units_def

lemma read_delta_He: \<open>read_delta P (js ''{"response":"He"}'') = js ''He''\<close>
  by (simp add: read_delta_def chunk_delta_def decode_simps JSON_parse_def)

lemma read_delta_llo: \<open>read_delta P (js ''{"response":"llo"}'') = js ''llo''\<close>
  by (simp add: read_delta_def chunk_delta_def decode_simps JSON_parse_def)

lemma process_chunk_He:
  \<open>process_chunk P (js ''{"response":"He"}'') (full, st) =
     (full @ js ''He'', updateResponse (\<lambda>prev. prev @ js ''He'') st)\<close>
  by (simp add: process_chunk_def chunk_delta_def decode_simps JSON_parse_def)

lemma process_chunk_llo:
  \<open>process_chunk P (js ''{"response":"llo"}'') (full, st) =
     (full @ js ''llo'', updateResponse (\<lambda>prev. prev @ js ''llo'') st)\<close>
  by (simp add: process_chunk_def chunk_delta_def decode_simps JSON_parse_def)

lemma read_loop_Hello:
  \<open>read_loop P [js ''{"response":"He"}'', js ''{"response":"llo"}''] ([], st) =
     (js ''Hello'',
      updateResponse (\<lambda>prev. prev @ js ''llo'') (updateResponse (\<lambda>prev. prev @ js ''He'') st))\<close>
proof -
  have \<open>read_loop P [js ''{"response":"He"}'', js ''{"response":"llo"}''] ([], st) =
      process_chunk P (js ''{"response":"llo"}'')
        (process_chunk P (js ''{"response":"He"}'') ([], st))\<close>
    by (simp only: read_loop.simps)
  also have \<open>\<dots> = ([] @ js ''He'' @ js ''llo'',
      updateResponse (\<lambda>prev. prev @ js ''llo'') (updateResponse (\<lambda>prev. prev @ js ''He'') st))\<close>
    by (simp only: process_chunk_He process_chunk_llo append_assoc)
  finally show ?thesis by simp
qed

text \<open>
  C7. For the two reads \<open>{"response":"He"}\<close> and \<open>{"response":"llo"}\<close> the final
  accumulated text is \<open>Hello\<close>. The partial updates are the calls of \<open>setResponse\<close> in
  the loop: starting from an empty \<open>response\<close> there are exactly two, giving it \<open>He\<close>
  and then \<open>Hello\<close>, each in the turn that parsed its read. In \<open>handleQuery\<close> the
  \<open>response\<close> has just been reset to the empty string, so that a generic query records
  the reset and then the two updates.
\<close>

theorem hello_in_two_reads:
  \<open>fst (read_loop P [js ''{"response":"He"}'', js ''{"response":"llo"}''] ([], st)) = js ''Hello''
   \<and> (fetch_generate E query =
         FetchResponse True (Some ([js ''{"response":"He"}'', js ''{"response":"llo"}''], Done))
        \<and> response st = [] \<longrightarrow>
        responseTrace (handleOllamaQuery P E query st) =
          responseTrace st @ [js ''He'', js ''Hello'']
      \<and> response (handleOllamaQuery P E query st) = js ''Hello''
      \<and> chatHistory (handleOllamaQuery P E query st) =
          chatHistory st @ [\<lparr>text_of = js ''Hello'', sender = js ''ai''\<rparr>])
   \<and> (fetch_generate E query =
         FetchResponse True (Some ([js ''{"response":"He"}'', js ''{"response":"llo"}''], Done))
        \<and> classify query = GenericQuery query \<longrightarrow>
        responseTrace (handleQuery P E query st) =
          responseTrace st @ [js '''', js ''He'', js ''Hello'']
      \<and> chatHistory (handleQuery P E query st) =
          chatHistory st @
            [\<lparr>text_of = query, sender = js ''user''\<rparr>,
             \<lparr>text_of = js ''Hello'', sender = js ''ai''\<rparr>])\<close>
proof -
  let ?vals = \<open>[js ''{"response":"He"}'', js ''{"response":"llo"}'']\<close>
  have eq: \<open>handleOllamaQuery P E query s =
      appendChat \<lparr>text_of = js ''Hello'', sender = js ''ai''\<rparr>
        (updateResponse (\<lambda>prev. prev @ js ''llo'')
           (updateResponse (\<lambda>prev. prev @ js ''He'') s))\<close>
    if "fetch_generate E query = FetchResponse True (Some (?vals, Done))" for s
    using that
    by (simp only: handleOllamaQuery_def read_loop_Hello fetch_outcome.case option.case
        prod.case stream_end.case not_True_eq_False if_False)
  have trace: "responseTrace (handleOllamaQuery P E query s) =
        responseTrace s @ [js ''He'', js ''Hello'']"
    and resp: "response (handleOllamaQuery P E query s) = js ''Hello''"
    and chat: "chatHistory (handleOllamaQuery P E query s) =
        chatHistory s @ [\<lparr>text_of = js ''Hello'', sender = js ''ai''\<rparr>]"
    if "fetch_generate E query = FetchResponse True (Some (?vals, Done))"
      and "response s = []" for s
    using that
    by (simp_all add: eq appendChat_def updateResponse_def setResponse_def)
  let ?st2 = "appendChat \<lparr>text_of = query, sender = js ''user''\<rparr>
                (setResponse [] (setLoading True st))"
  have r2: "response ?st2 = []"
    "responseTrace ?st2 = responseTrace st @ [js '''']"
    "chatHistory ?st2 = chatHistory st @ [\<lparr>text_of = query, sender = js ''user''\<rparr>]"
    by (simp_all add: appendChat_def setResponse_def setLoading_def)
  have q: "handleQuery P E query st = setLoading False (handleOllamaQuery P E query ?st2)"
    if "classify query = GenericQuery query"
    using that by (simp add: handleQuery_classify Let_def)
  have "fst (read_loop P ?vals ([], st)) = js ''Hello''"
    by (simp only: read_loop_Hello fst_conv)
  moreover have "responseTrace (handleQuery P E query st) =
        responseTrace st @ [js '''', js ''He'', js ''Hello'']"
    and "chatHistory (handleQuery P E query st) =
        chatHistory st @
          [\<lparr>text_of = query, sender = js ''user''\<rparr>,
           \<lparr>text_of = js ''Hello'', sender = js ''ai''\<rparr>]"
    if "fetch_generate E query = FetchResponse True (Some (?vals, Done))"
      and "classify query = GenericQuery query"
    using trace[OF that(1) r2(1)] chat[OF that(1) r2(1)] r2(2,3) q[OF that(2)]
    by (simp_all add: setLoading_def)
  ultimately show ?thesis
    using trace resp chat by blast
qed

text \<open>An inference service that delivers exactly these two reads.\<close>

theorem hello_in_two_reads_witness:
  \<open>fetch_generate (streaming [js ''{"response":"He"}'', js ''{"response":"llo"}'']) (js ''hi'') =
      FetchResponse True (Some ([js ''{"response":"He"}'', js ''{"response":"llo"}''], Done))
   \<and> response initial_app = []
   \<and> responseTrace (handleOllamaQuery example_platform
        (streaming [js ''{"response":"He"}'', js ''{"response":"llo"}'']) (js ''hi'') initial_app) =
       [js ''He'', js ''Hello'']
   \<and> chatHistory (handleOllamaQuery example_platform
        (streaming [js ''{"response":"He"}'', js ''{"response":"llo"}'']) (js ''hi'') initial_app) =
       [\<lparr>text_of = js ''Hello'', sender = js ''ai''\<rparr>]\<close>
proof -
  let ?E = \<open>streaming [js ''{"response":"He"}'', js ''{"response":"llo"}'']\<close>
  have f: \<open>fetch_generate ?E (js ''hi'') =
      FetchResponse True (Some ([js ''{"response":"He"}'', js ''{"response":"llo"}''], Done))\<close>
    by (simp add: streaming_def offline_def)
  have r: "response initial_app = []" "responseTrace initial_app = []"
    "chatHistory initial_app = []"
    by (simp_all add: initial_app_def)
  note t = hello_in_two_reads[where P = example_platform and E = ?E and query = "js ''hi''"
      and st = initial_app]
  from t f r(1) have
    \<open>responseTrace (handleOllamaQuery example_platform ?E (js ''hi'') initial_app) =
       responseTrace initial_app @ [js ''He'', js ''Hello'']\<close>
    \<open>chatHistory (handleOllamaQuery example_platform ?E (js ''hi'') initial_app) =
       chatHistory initial_app @ [\<lparr>text_of = js ''Hello'', sender = js ''ai''\<rparr>]\<close>
    by blast+
  with f r show ?thesis by (simp only: append_Nil simp_thms)
qed

lemma chatHistory_generic:
  assumes "classify query = GenericQuery query"
  shows "chatHistory (handleQuery P E query st) =
         chatHistory (handleOllamaQuery P E query
           (appendChat \<lparr>text_of = query, sender = js ''user''\<rparr>
              (setResponse [] (setLoading True st))))"
  using assms by (simp add: handleQuery_classify Let_def chatHistory_simps)

text \<open>
  C8. A stream that ends without a read is no failure: \<open>handleOllamaQuery\<close> appends one
  Agent entry with the empty text and changes nothing else, and the generic query that
  opened the stream leaves its User entry followed by that entry. For every stream that
  ends, the final accumulated text, empty or not, becomes exactly one Agent entry.
\<close>

theorem empty_answer_is_logged:
  "(fetch_generate E query = FetchResponse True (Some ([], Done)) \<longrightarrow>
      handleOllamaQuery P E query st = appendChat \<lparr>text_of = [], sender = js ''ai''\<rparr> st
    \<and> (classify query = GenericQuery query \<longrightarrow>
         chatHistory (handleQuery P E query st) =
           chatHistory st @
             [\<lparr>text_of = query, sender = js ''user''\<rparr>, \<lparr>text_of = [], sender = js ''ai''\<rparr>]))
   \<and> (fetch_generate E query = FetchResponse True (Some (vals, Done)) \<longrightarrow>
      chatHistory (handleOllamaQuery P E query st) =
        chatHistory st @
          [\<lparr>text_of = fst (read_loop P vals ([], st)), sender = js ''ai''\<rparr>]
    \<and> (classify query = GenericQuery query \<longrightarrow>
         agent_entries (drop (length (chatHistory st)) (chatHistory (handleQuery P E query st))) =
           [\<lparr>text_of = concat (map (read_delta P) vals), sender = js ''ai''\<rparr>]))"
proof (intro conjI impI)
  assume a: "fetch_generate E query = FetchResponse True (Some ([], Done))"
  then show "handleOllamaQuery P E query st =
      appendChat \<lparr>text_of = [], sender = js ''ai''\<rparr> st"
    by (simp add: handleOllamaQuery_def)
  assume "classify query = GenericQuery query"
  then show "chatHistory (handleQuery P E query st) =
      chatHistory st @
        [\<lparr>text_of = query, sender = js ''user''\<rparr>, \<lparr>text_of = [], sender = js ''ai''\<rparr>]"
    using a by (simp add: chatHistory_generic chatHistory_handleOllamaQuery chatHistory_simps)
next
  assume a: "fetch_generate E query = FetchResponse True (Some (vals, Done))"
  then show "chatHistory (handleOllamaQuery P E query st) =
      chatHistory st @ [\<lparr>text_of = fst (read_loop P vals ([], st)), sender = js ''ai''\<rparr>]"
    by (simp add: chatHistory_handleOllamaQuery fst_read_loop)
  assume "classify query = GenericQuery query"
  then have "chatHistory (handleQuery P E query st) =
      chatHistory st @
        [\<lparr>text_of = query, sender = js ''user''\<rparr>,
         \<lparr>text_of = concat (map (read_delta P) vals), sender = js ''ai''\<rparr>]"
    using a by (simp add: chatHistory_generic chatHistory_handleOllamaQuery chatHistory_simps)
  then show "agent_entries (drop (length (chatHistory st))
        (chatHistory (handleQuery P E query st))) =
      [\<lparr>text_of = concat (map (read_delta P) vals), sender = js ''ai''\<rparr>]"
    by (simp add: agent_entries_def)
qed

text \<open>The query \<open>hello\<close> with an inference service whose stream ends at once.\<close>

theorem empty_answer_is_logged_witness:
  "fetch_generate (streaming []) (js ''hello'') = FetchResponse True (Some ([], Done))
   \<and> classify (js ''hello'') = GenericQuery (js ''hello'')
   \<and> handleOllamaQuery example_platform (streaming []) (js ''hello'') initial_app =
       appendChat \<lparr>text_of = [], sender = js ''ai''\<rparr> initial_app
   \<and> chatHistory (handleQuery example_platform (streaming []) (js ''hello'') initial_app) =
       [\<lparr>text_of = js ''hello'', sender = js ''user''\<rparr>, \<lparr>text_of = [], sender = js ''ai''\<rparr>]"
proof -
  have f: "fetch_generate (streaming []) (js ''hello'') = FetchResponse True (Some ([], Done))"
    by (simp add: streaming_def offline_def)
  have c: "classify (js ''hello'') = GenericQuery (js ''hello'')"
    by (simp add: classify_def trim_def is_space_def toLowerCase_def lowerUnit_def)
  have i: "chatHistory initial_app = []"
    by (simp add: initial_app_def)
  note t = empty_answer_is_logged[where E = "streaming []" and query = "js ''hello''"
      and P = example_platform and st = initial_app and vals = "[]"]
  from t f c have
    "handleOllamaQuery example_platform (streaming []) (js ''hello'') initial_app =
       appendChat \<lparr>text_of = [], sender = js ''ai''\<rparr> initial_app"
    "chatHistory (handleQuery example_platform (streaming []) (js ''hello'') initial_app) =
       chatHistory initial_app @
         [\<lparr>text_of = js ''hello'', sender = js ''user''\<rparr>, \<lparr>text_of = [], sender = js ''ai''\<rparr>]"
    by blast+
  with f c i show ?thesis by (simp only: append_Nil simp_thms)
qed

lemma array_index_response: "array_index (js ''response'') = None"
  by (simp add: array_index_def is_digit_def)

lemma non_object_response:
  "\<not> is_object j \<Longrightarrow>
   js_get j (js ''response'') = Inl TypeError \<or> js_get j (js ''response'') = Inr None"
  using array_index_response by (cases j) simp_all

lemma read_delta_unchanged:
  assumes "JSON_parse (TextDecoder_decode v) = Inr j"
    and "\<not> is_object j \<or> js_get j (js ''response'') = Inr None
         \<or> (\<exists>r. js_get j (js ''response'') = Inr (Some r) \<and> \<not> truthy P r)"
  shows "chunk_delta P (TextDecoder_decode v) = Inl TypeError
         \<or> chunk_delta P (TextDecoder_decode v) = Inr []"
proof -
  from assms(2) consider "js_get j (js ''response'') = Inl TypeError"
    | "js_get j (js ''response'') = Inr None"
    | r where "js_get j (js ''response'') = Inr (Some r)" "\<not> truthy P r"
    using non_object_response[of j] by blast
  then show ?thesis
    using assms(1) by cases (simp_all add: chunk_delta_def)
qed

lemma parse_null: "JSON_parse (TextDecoder_decode (js ''null'')) = Inr JNull"
  by (simp add: decode_simps JSON_parse_def)

text \<open>
  C10. A read whose text parses to a value that is not an object (as \<open>null\<close>), to an
  object without a \<open>response\<close> member, or to one whose \<open>response\<close> is falsy, is dealt
  with inside its turn of the loop: the accumulated text, \<open>response\<close> and the log stay
  as they were, the loop goes on with the next read, and the final text is the one of
  the stream without that read. Whatever its chunks hold, a stream that ends gets its
  Agent entry: no chunk makes the loop throw.
\<close>

theorem odd_chunk_handled_inside_loop:
  "(JSON_parse (TextDecoder_decode v) = Inr j
     \<and> (\<not> is_object j \<or> js_get j (js ''response'') = Inr None
         \<or> (\<exists>r. js_get j (js ''response'') = Inr (Some r) \<and> \<not> truthy P r)) \<longrightarrow>
      fst (process_chunk P v (full, st)) = full
    \<and> response (snd (process_chunk P v (full, st))) = response st
    \<and> chatHistory (snd (process_chunk P v (full, st))) = chatHistory st
    \<and> read_loop P (v # rest) (full, st) = read_loop P rest (process_chunk P v (full, st))
    \<and> fst (read_loop P (before @ v # rest) (full, st)) =
        fst (read_loop P (before @ rest) (full, st)))
   \<and> (fetch_generate E query = FetchResponse True (Some (vals, Done)) \<longrightarrow>
        chatHistory (handleOllamaQuery P E query st) =
          chatHistory st @
            [\<lparr>text_of = concat (map (read_delta P) vals), sender = js ''ai''\<rparr>])"
proof (intro conjI impI)
  assume a: "JSON_parse (TextDecoder_decode v) = Inr j
     \<and> (\<not> is_object j \<or> js_get j (js ''response'') = Inr None
         \<or> (\<exists>r. js_get j (js ''response'') = Inr (Some r) \<and> \<not> truthy P r))"
  then have d: "chunk_delta P (TextDecoder_decode v) = Inl TypeError
         \<or> chunk_delta P (TextDecoder_decode v) = Inr []"
    using read_delta_unchanged[of v j P] by blast
  then have r: "read_delta P v = []"
    by (auto simp: read_delta_def)
  then show "fst (process_chunk P v (full, st)) = full"
    by (simp add: fst_process_chunk)
  from d show "response (snd (process_chunk P v (full, st))) = response st"
    by (auto simp: process_chunk_def updateResponse_def response_simps)
  show "chatHistory (snd (process_chunk P v (full, st))) = chatHistory st"
    by (simp add: chatHistory_process_chunk)
  show "read_loop P (v # rest) (full, st) = read_loop P rest (process_chunk P v (full, st))"
    by simp
  from r show "fst (read_loop P (before @ v # rest) (full, st)) =
        fst (read_loop P (before @ rest) (full, st))"
    by (simp add: fst_read_loop)
next
  assume "fetch_generate E query = FetchResponse True (Some (vals, Done))"
  then show "chatHistory (handleOllamaQuery P E query st) =
      chatHistory st @ [\<lparr>text_of = concat (map (read_delta P) vals), sender = js ''ai''\<rparr>]"
    by (simp add: chatHistory_handleOllamaQuery)
qed

text \<open>The read \<open>null\<close>: reading \<open>response\<close> of \<open>null\<close> throws, and the turn catches it.\<close>

theorem odd_chunk_handled_inside_loop_witness:
  "JSON_parse (TextDecoder_decode (js ''null'')) = Inr JNull
   \<and> \<not> is_object JNull
   \<and> process_chunk example_platform (js ''null'') (js ''abc'', initial_app) =
       (js ''abc'', console_log ErrorParsingChunk initial_app)
   \<and> fst (read_loop example_platform [js ''null''] (js ''abc'', initial_app)) = js ''abc''"
proof -
  have n: "\<not> is_object JNull" by simp
  note t = odd_chunk_handled_inside_loop[where v = "js ''null''" and j = JNull
      and P = example_platform and full = "js ''abc''" and st = initial_app
      and before = "[]" and rest = "[]"]
  from t parse_null n have
    "fst (read_loop example_platform ([] @ js ''null'' # []) (js ''abc'', initial_app)) =
     fst (read_loop example_platform ([] @ []) (js ''abc'', initial_app))"
    by blast
  then have l: "fst (read_loop example_platform [js ''null''] (js ''abc'', initial_app)) = js ''abc''"
    by (simp only: append_Nil read_loop.simps fst_conv)
  have p: "process_chunk example_platform (js ''null'') (js ''abc'', initial_app) =
       (js ''abc'', console_log ErrorParsingChunk initial_app)"
    using parse_null by (simp add: process_chunk_def chunk_delta_def)
  from parse_null n p l show ?thesis by blast
qed

text \<open>
  C4. The claim: the final text does not depend on how the service splits the response
  into reads. The loop decodes and parses every read on its own and keeps nothing from
  one read to the next. What holds: the final accumulated text is the concatenation, in
  the order of the reads, of what each read contributes; a read whose text is one JSON
  object with a string \<open>response\<close> contributes that string, and a read whose text is
  not one JSON text contributes nothing.
\<close>

theorem each_read_parsed_on_its_own:
  "fst (read_loop P vals (full, st)) = full @ concat (map (read_delta P) vals)
   \<and> (JSON_parse (TextDecoder_decode v) = Inl e \<longrightarrow> read_delta P v = [])
   \<and> (JSON_parse (TextDecoder_decode v) = Inr (JObj ms)
        \<and> map_of (rev ms) (js ''response'') = Some (JStr d) \<longrightarrow> read_delta P v = d)"
  by (auto simp: fst_read_loop read_delta_def chunk_delta_def)

text \<open>The read \<open>{"response":"He"}\<close>.\<close>

theorem each_read_parsed_on_its_own_witness:
  \<open>JSON_parse (TextDecoder_decode (js ''{"response":"He"}'')) =
     Inr (JObj [(js ''response'', JStr (js ''He''))])
   \<and> map_of (rev [(js ''response'', JStr (js ''He''))]) (js ''response'') = Some (JStr (js ''He''))
   \<and> read_delta example_platform (js ''{"response":"He"}'') = js ''He''\<close>
proof -
  have p: \<open>JSON_parse (TextDecoder_decode (js ''{"response":"He"}'')) =
     Inr (JObj [(js ''response'', JStr (js ''He''))])\<close>
    by (simp add: decode_simps JSON_parse_def)
  have m: "map_of (rev [(js ''response'', JStr (js ''He''))]) (js ''response'') =
      Some (JStr (js ''He''))"
    by simp
  from each_read_parsed_on_its_own[where v = \<open>js ''{"response":"He"}''\<close>
      and ms = "[(js ''response'', JStr (js ''He''))]" and d = "js ''He''"
      and P = example_platform] p m
  have \<open>read_delta example_platform (js ''{"response":"He"}'') = js ''He''\<close>
    by blast
  with p m show ?thesis by blast
qed

text \<open>
  The claim as stated fails: two fragments give \<open>ab\<close> as two reads and nothing as one
  read with a line feed between them; a fragment with the two-byte character U+00E9
  gives that character as one read and nothing when the read boundary falls between its
  bytes.
\<close>

theorem regrouped_reads_change_the_text:
  \<open>fst (read_loop example_platform [js ''{"response":"a"}'', js ''{"response":"b"}'']
          ([], initial_app)) = js ''ab''
   \<and> fst (read_loop example_platform [js ''{"response":"a"}'' @ [10] @ js ''{"response":"b"}'']
          ([], initial_app)) = []
   \<and> fst (read_loop example_platform [js ''{"response":"'' @ [195, 169] @ js ''"}'']
          ([], initial_app)) = [233]
   \<and> fst (read_loop example_platform [js ''{"response":"'' @ [195], [169] @ js ''"}'']
          ([], initial_app)) = []\<close>
  by (simp del: read_loop.simps add: fst_read_loop read_delta_def chunk_delta_def decode_simps
      JSON_parse_def lex_number_def)

end
